theory Spec2Isabelle
  imports Main "HOL-Library.Sublist"
begin

section \<open>Values, tags and errors\<close>

text \<open>
  The transaction controller of the SDK (class \<open>Controller\<close> of the transaction feature)
  is embedded function by function. JavaScript values whose truthiness the code tests are
  kept as tagged values; numbers are integers (no NaN, no fractions: gas, fees and ledger
  indices are integral and far below \<open>2 ^ 53\<close>).
\<close>

datatype js_value = JsUndefined | JsNull | JsBool bool | JsNumber int | JsString string

fun truthy :: "js_value \<Rightarrow> bool" where
  "truthy JsUndefined = False"
| "truthy JsNull = False"
| "truthy (JsBool b) = b"
| "truthy (JsNumber n) = (n \<noteq> 0)"
| "truthy (JsString s) = (s \<noteq> [])"

text \<open>
  \<open>Protocol\<close> and \<open>TransactionType\<close> are string enumerations of the constants module and
  of the entity module. The members the controller names are constructors; any other
  string a caller may pass is \<open>UnknownProtocol\<close> / \<open>OtherType\<close>.
\<close>

datatype protocol =
  STELLAR | RIPPLE | CELO | ETHEREUM | BSC | AVAXCCHAIN | BITCOIN | HATHOR | CARDANO
  | SOLANA | POLYGON | UnknownProtocol string

datatype transaction_type =
  TRANSFER | CALL_CONTRACT_METHOD | DEPLOY_CONTRACT | CHANGE_TRUST | HATHOR_TOKEN_MELT
  | SOLANA_TOKEN_BURN | OtherType string

datatype abi = TRANSFER_METHOD_ABI | TRANSFER_COMMENT_METHOD_ABI | CustomAbi string

text \<open>
  Exceptions are values. \<open>GenericException message type\<close> and \<open>HathorException message\<close>
  are the SDK's own classes, \<open>TypeError\<close> is what the JavaScript runtime raises on a
  property access or call on \<open>undefined\<close>/\<open>false\<close>, \<open>JsError\<close> is \<open>new Error(message)\<close>,
  and \<open>Failure\<close> is whatever a collaborator (remote API, signing library) raised.
\<close>

datatype error =
  GenericException string "string option"
  | HathorException string
  | TypeError string
  | JsError string
  | Failure string

section \<open>Entities\<close>

record wallet =
  address :: string
  privateKey :: string
  publicKey :: string

record config =
  environment :: string
  apiKey :: string

text \<open>\<open>FeeResponse\<close>, also the shape of a caller's fee override; an absent field is
  \<open>JsUndefined\<close>.\<close>

record fee_obj =
  gas :: js_value
  gasPrice :: js_value
  chainId :: js_value
  estimateValue :: js_value

record wallet_info =
  nonce :: js_value
  sequence :: js_value
  ledgerCurrentIndex :: int

text \<open>The body of a fee request; a field the controller does not set is \<open>None\<close>.\<close>

record fee_data =
  type' :: "transaction_type option"
  from' :: "string option"
  destination :: "string option"
  amount :: "string option"
  contractAddress :: "string option"
  contractAbi :: "abi option"
  method' :: "string option"
  params :: "string list option"
  contractName :: "string option"
  source :: "string option"
  feeCurrency :: "string option"
  tokenType :: "string option"

record utxo =
  txHash :: string
  index :: int
  value' :: int
  token :: string

text \<open>The body of the unspent-output response: an array of raw outputs, or anything
  else (\<open>Array.isArray\<close> is false).\<close>

datatype utxos_body = ArrayBody "utxo list" | NonArrayBody js_value

text \<open>What \<open>getUTXOs\<close> returns: the boolean \<open>false\<close> or an array of \<open>UTXO\<close>.\<close>

datatype utxos_result = JsFalse | UtxoArray "utxo list"

record hathor_output =
  value' :: int
  token_data :: int

text \<open>
  A transaction as returned by the transaction-by-hash request: \<open>hex\<close>, \<open>blockhash\<close> and
  \<open>vout\<close> are what the Bitcoin flow reads, \<open>outputs\<close> is \<open>tx.tx.outputs\<close> of the Hathor flow.
\<close>

record transaction =
  hex :: string
  blockhash :: string
  vout :: "string list"
  outputs :: "hathor_output list"

record signed_transaction =
  signedTx :: string
  protocol :: protocol
  type' :: transaction_type

section \<open>Account-chain intents and builder options\<close>

record transfer_options =
  fromPrivateKey :: string
  tokenSymbol :: string
  amount :: string
  destination :: string
  memo :: "string option"
  fee :: fee_obj
  nonce :: js_value
  testnet :: bool
  contractAddress :: "string option"
  feeCurrency :: "string option"

record contract_options =
  source :: "string option"
  contractName :: "string option"
  fromPrivateKey :: string
  nonce :: js_value
  value' :: "string option"
  contractAddress :: "string option"
  contractAbi :: "abi option"
  method' :: "string option"
  params :: "string list option"
  fee :: fee_obj
  feeCurrency :: "string option"
  testnet :: bool
  config :: "config option"
  tokenType :: "string option"
  protocol :: "protocol option"

record transfer_input =
  wallet :: wallet
  tokenSymbol :: string
  amount :: string
  destination :: string
  memo :: "string option"
  fee :: "fee_obj option"
  testnet :: "bool option"
  contractAddress :: "string option"
  feeCurrency :: "string option"

record contract_input =
  wallet :: wallet
  fee :: "fee_obj option"
  testnet :: "bool option"
  value' :: "string option"
  contractAddress :: "string option"
  contractAbi :: "abi option"
  method' :: "string option"
  params :: "string list option"
  protocol :: protocol
  feeCurrency :: "string option"
  source :: "string option"
  contractName :: "string option"
  tokenType :: string

section \<open>Ledger-sequence intents (Ripple)\<close>

record ripple_options =
  fromAddress :: string
  fromPrivateKey :: string
  assetSymbol :: string
  issuer :: "string option"
  amount :: "string option"
  destination :: "string option"
  limit :: "string option"
  memo :: "string option"
  fee :: js_value
  sequence :: js_value
  maxLedgerVersion :: int
  testnet :: bool

record ripple_input =
  wallet :: wallet
  assetSymbol :: string
  issuer :: "string option"
  amount :: "string option"
  destination :: "string option"
  limit :: "string option"
  memo :: "string option"
  fee :: js_value
  testnet :: "bool option"

section \<open>Unspent-output intents (Bitcoin, Hathor)\<close>

text \<open>\<open>Input\<close>: a caller-supplied or discovered input; \<open>hex\<close> and \<open>blockhash\<close> are
  filled in from the resolved transaction.\<close>

record tx_input =
  txHash :: string
  index :: int
  privateKey :: string
  hex :: "string option"
  blockhash :: "string option"
  value' :: "int option"
  token :: "string option"

record bitcoin_output =
  address :: string
  amount :: string

record bitcoin_input =
  wallet :: "wallet option"
  inputs :: "tx_input list option"
  outputs :: "bitcoin_output list"
  fee :: js_value
  testnet :: "bool option"

record bitcoin_options =
  wallet :: "wallet option"
  inputs :: "tx_input list option"
  outputs :: "bitcoin_output list"
  fee :: js_value
  testnet :: bool

record hathor_transfer_output =
  address :: string
  amount :: int
  token :: "string option"

record hathor_transfer_input =
  wallet :: wallet
  outputs :: "hathor_transfer_output list"
  testnet :: "bool option"

record hathor_transfer_options =
  inputs :: "tx_input list"
  outputs :: "hathor_transfer_output list"
  tokens :: "string list"
  changeAddress :: string
  testnet :: bool

record hathor_token_input =
  wallet :: wallet
  tokenName :: "string option"
  tokenSymbol :: "string option"
  type' :: transaction_type
  tokenUid :: "string option"
  mintAuthorityAddress :: "string option"
  meltAuthorityAddress :: "string option"
  amount :: string
  address :: "string option"
  changeAddress :: "string option"
  testnet :: "bool option"

record hathor_token_options =
  type' :: transaction_type
  inputs :: "tx_input list"
  tokenUid :: "string option"
  tokenName :: "string option"
  tokenSymbol :: "string option"
  address :: string
  changeAddress :: string
  mintAuthorityAddress :: "string option"
  meltAuthorityAddress :: "string option"
  amount :: string
  testnet :: bool
  inputSum :: int

section \<open>Solana intents\<close>

record solana_input =
  wallet :: string
  destination :: "string option"
  token :: string
  amount :: string

record solana_options =
  from' :: string
  to :: "string option"
  token :: string
  amount :: string
  latestBlock :: string

section \<open>Multi-phase signing (Cardano)\<close>

record cardano_wallet =
  address :: string
  spendingPrivateKey :: string

record cardano_input =
  address :: string
  privateKey :: string
  txHash :: string
  index :: string

record cardano_utxo =
  txHash :: string
  index :: int
  value' :: int
  token :: string
  address :: string

record key_entry =
  secretKey :: string
  publicKey :: string

record signing_payload =
  account_address :: string
  hex_bytes :: string

text \<open>A signature as submitted to the combine request; \<open>public_key.hex_bytes\<close> is \<open>None\<close>
  when the code read it as \<open>undefined\<close>.\<close>

record signature =
  signing_payload :: signing_payload
  public_key_hex_bytes :: "string option"
  curve_type :: string
  signature_type :: string
  hex_bytes :: string

record metadata_data =
  suggested_fee :: "string list"
  metadata :: string

record payload_data =
  payloads :: "signing_payload list"
  unsigned_transaction :: string

section \<open>Calls to collaborators\<close>

text \<open>
  Every request to the remote API and every call of a local builder or signing primitive
  is recorded, in program order, next to the result of the call. A construction is a
  pair: the calls it made, and the exception it raised (\<open>Inl\<close>) or the value it returned
  (\<open>Inr\<close>).
\<close>

datatype event =
  GetWalletInfo string protocol
  | GetFee fee_data protocol
  | GetUTXOs string protocol
  | GetTransactionByHash string protocol
  | GetLatestBlock protocol
  | Preprocess string
  | GetMetadata string
  | GetPayload string string
  | CombineSignatures string "signature list"
  | BuildCeloTransferTransaction transfer_options
  | BuildEthereumTransferTransaction transfer_options
  | BuildBscTransferTransaction transfer_options
  | BuildAvaxCChainTransferTransaction transfer_options
  | BuildCeloSmartContractTransaction contract_options
  | BuildEthereumSmartContractTransaction contract_options
  | BuildCeloSmartContractDeployTransaction contract_options
  | BuildEthereumSmartContractDeployTransaction contract_options
  | BuildRippleTransferTransaction ripple_options
  | BuildRippleTrustlineTransaction ripple_options
  | BuildBitcoinTransferTransaction bitcoin_options
  | BuildHathorTransferTransaction hathor_transfer_options
  | BuildHathorTokenTransaction hathor_token_options
  | BuildSolanaTokenBurnTransaction solana_options
  | MintSolanaToken solana_options
  | MakeVkeyWitness string string

fun is_network_call :: "event \<Rightarrow> bool" where
  "is_network_call (GetWalletInfo a p) = True"
| "is_network_call (GetFee d p) = True"
| "is_network_call (GetUTXOs a p) = True"
| "is_network_call (GetTransactionByHash h p) = True"
| "is_network_call (GetLatestBlock p) = True"
| "is_network_call (Preprocess ops) = True"
| "is_network_call (GetMetadata opts) = True"
| "is_network_call (GetPayload ops m) = True"
| "is_network_call (CombineSignatures u sigs) = True"
| "is_network_call ev = False"

definition is_signing_call :: "event \<Rightarrow> bool" where
  "is_signing_call ev = (\<not> is_network_call ev)"

type_synonym 'a io = "event list \<times> (error + 'a)"

definition io_return :: "'a \<Rightarrow> 'a io" where
  "io_return x = ([], Inr x)"

definition io_throw :: "error \<Rightarrow> 'a io" where
  "io_throw e = ([], Inl e)"

definition io_call :: "event \<Rightarrow> error + 'a \<Rightarrow> 'a io" where
  "io_call ev r = ([ev], r)"

text \<open>\<open>await m\<close> followed by the rest of the function: an exception of \<open>m\<close> ends it.\<close>

definition io_bind :: "'a io \<Rightarrow> ('a \<Rightarrow> 'b io) \<Rightarrow> 'b io" where
  "io_bind m f =
     (case snd m of
        Inl e \<Rightarrow> (fst m, Inl e)
      | Inr x \<Rightarrow> (fst m @ fst (f x), snd (f x)))"

text \<open>
  \<open>Promise.all([p, q])\<close>: both calls are issued; the result is the pair of results, or the
  rejection that arrives first. When both reject, which one arrives first is decided by
  the network, not by the program: \<open>second_first\<close> says that it is the second one.
\<close>

definition promise_all2 :: "bool \<Rightarrow> 'a io \<Rightarrow> 'b io \<Rightarrow> ('a \<times> 'b) io" where
  "promise_all2 second_first p q =
     (fst p @ fst q,
      case snd p of
        Inr a \<Rightarrow> (case snd q of Inr b \<Rightarrow> Inr (a, b) | Inl e \<Rightarrow> Inl e)
      | Inl e \<Rightarrow> (case snd q of Inr b \<Rightarrow> Inl e | Inl e' \<Rightarrow> Inl (if second_first then e' else e)))"

text \<open>
  The controller's surroundings: its configuration, the remote API (one response per
  request), the helpers of the services modules, and the local builders, which sign.
  \<open>handleRequestError\<close> (services module) is taken as the exception it raises for the
  exception it is given; \<open>toWei\<close> includes the \<open>toString\<close> and \<open>toHTRUnit\<close> the \<open>toNumber\<close>
  the controller applies to their results.
\<close>

record controller =
  config :: config
  requestWalletInfo :: "string \<Rightarrow> protocol \<Rightarrow> error + wallet_info"
  requestFee :: "fee_data \<Rightarrow> protocol \<Rightarrow> error + fee_obj"
  requestUTXOs :: "string \<Rightarrow> protocol \<Rightarrow> error + utxos_body"
  requestTransactionByHash :: "string \<Rightarrow> protocol \<Rightarrow> error + transaction"
  requestLatestBlock :: "protocol \<Rightarrow> error + string"
  feeRejectsFirst :: bool
  handleRequestError :: "error \<Rightarrow> error"
  toWei :: "string \<Rightarrow> string"
  toHTRUnit :: "string \<Rightarrow> int"
  getTokenAddress :: "protocol \<Rightarrow> string \<Rightarrow> bool \<Rightarrow> string"
  CUSD_CONTRACT_ADDRESS :: "bool \<Rightarrow> string"
  CEUR_CONTRACT_ADDRESS :: "bool \<Rightarrow> string"
  build :: "event \<Rightarrow> error + string"

text \<open>\<open>testnet !== undefined ? testnet : this.config.environment === 'development'\<close>\<close>

definition resolve_testnet :: "controller \<Rightarrow> bool option \<Rightarrow> bool" where
  "resolve_testnet c tn =
     (case tn of
        Some t \<Rightarrow> t
      | None \<Rightarrow> config.environment (controller.config c) = ''development'')"

text \<open>Truthiness of an optional string: \<open>undefined\<close>, \<open>null\<close> and \<open>''\<close> are falsy.\<close>

definition truthy_str :: "string option \<Rightarrow> bool" where
  "truthy_str x = (case x of None \<Rightarrow> False | Some s \<Rightarrow> s \<noteq> [])"

definition keep_truthy :: "string option \<Rightarrow> string option" where
  "keep_truthy x = (if truthy_str x then x else None)"

definition getWalletInfo :: "controller \<Rightarrow> string \<Rightarrow> protocol \<Rightarrow> wallet_info io" where
  "getWalletInfo c addr proto =
     io_call (GetWalletInfo addr proto) (requestWalletInfo c addr proto)"

text \<open>The \<open>data\<close> object \<open>getFee\<close> sends: only the fields with a truthy value.\<close>

definition fee_request_data :: "fee_data \<Rightarrow> fee_data" where
  "fee_request_data a = \<lparr>
     fee_data.type' = (case fee_data.type' a of Some (OtherType []) \<Rightarrow> None | t \<Rightarrow> t),
     fee_data.from' = keep_truthy (fee_data.from' a),
     fee_data.destination = keep_truthy (fee_data.destination a),
     fee_data.amount = keep_truthy (fee_data.amount a),
     fee_data.contractAddress = keep_truthy (fee_data.contractAddress a),
     fee_data.contractAbi = fee_data.contractAbi a,
     fee_data.method' = keep_truthy (fee_data.method' a),
     fee_data.params = fee_data.params a,
     fee_data.contractName = keep_truthy (fee_data.contractName a),
     fee_data.source = keep_truthy (fee_data.source a),
     fee_data.feeCurrency = keep_truthy (fee_data.feeCurrency a),
     fee_data.tokenType = keep_truthy (fee_data.tokenType a) \<rparr>"

definition getFee :: "controller \<Rightarrow> fee_data \<Rightarrow> protocol \<Rightarrow> fee_obj io" where
  "getFee c a proto =
     (let data = fee_request_data a
      in io_call (GetFee data proto)
           (case requestFee c data proto of
              Inl e \<Rightarrow> Inl (handleRequestError c e)
            | Inr r \<Rightarrow> Inr r))"

text \<open>\<open>new UTXO(utxo)\<close> keeps the identifier, value and token of the raw output.\<close>

definition UTXO :: "utxo \<Rightarrow> utxo" where
  "UTXO u = u"

definition getUTXOs :: "controller \<Rightarrow> string \<Rightarrow> protocol \<Rightarrow> utxos_result io" where
  "getUTXOs c addr proto =
     io_call (GetUTXOs addr proto)
       (case requestUTXOs c addr proto of
          Inl e \<Rightarrow> Inl (handleRequestError c e)
        | Inr (ArrayBody us) \<Rightarrow> Inr (UtxoArray (map UTXO us))
        | Inr (NonArrayBody v) \<Rightarrow> Inr JsFalse)"

definition getTransactionByHash :: "controller \<Rightarrow> string \<Rightarrow> protocol \<Rightarrow> transaction io" where
  "getTransactionByHash c hash proto =
     io_call (GetTransactionByHash hash proto)
       (case requestTransactionByHash c hash proto of
          Inl e \<Rightarrow> Inl (handleRequestError c e)
        | Inr r \<Rightarrow> Inr r)"

section \<open>Fee and chain-state orchestration\<close>

text \<open>The fee fields a caller override replaces: those whose value is truthy.\<close>

definition merge_fee :: "fee_obj option \<Rightarrow> fee_obj \<Rightarrow> fee_obj" where
  "merge_fee fee_override networkFee =
     (let networkFee1 =
            (case fee_override of
               Some f \<Rightarrow> if truthy (gas f) then networkFee\<lparr>gas := gas f\<rparr> else networkFee
             | None \<Rightarrow> networkFee)
      in (case fee_override of
            Some f \<Rightarrow>
              if truthy (gasPrice f) then networkFee1\<lparr>gasPrice := gasPrice f\<rparr> else networkFee1
          | None \<Rightarrow> networkFee1))"

text \<open>\<open>_getFeeInfo\<close>; the request fields other than \<open>from\<close> are those of \<open>a\<close>.\<close>

definition getFeeInfo ::
  "controller \<Rightarrow> wallet \<Rightarrow> fee_obj option \<Rightarrow> protocol \<Rightarrow> fee_data \<Rightarrow> (wallet_info \<times> fee_obj) io"
where
  "getFeeInfo c w fee_override proto a =
     io_bind
       (promise_all2 (feeRejectsFirst c)
          (getWalletInfo c (wallet.address w) proto)
          (getFee c (a\<lparr>fee_data.from' := Some (wallet.address w)\<rparr>) proto))
       (\<lambda>(info, networkFee). io_return (info, merge_fee fee_override networkFee))"

text \<open>A fee request with no field set.\<close>

definition no_fee_data :: fee_data where
  "no_fee_data = \<lparr>
     fee_data.type' = None, fee_data.from' = None, fee_data.destination = None,
     fee_data.amount = None, fee_data.contractAddress = None, fee_data.contractAbi = None,
     fee_data.method' = None, fee_data.params = None, fee_data.contractName = None,
     fee_data.source = None, fee_data.feeCurrency = None, fee_data.tokenType = None \<rparr>"

section \<open>Account-chain constructions\<close>

text \<open>A call of a local builder: it signs and returns the signed payload, or raises.\<close>

definition local_build :: "controller \<Rightarrow> event \<Rightarrow> string io" where
  "local_build c ev = io_call ev (build c ev)"

definition createCeloTransferTransaction ::
  "controller \<Rightarrow> (transfer_input \<Rightarrow> error option) \<Rightarrow> transfer_input \<Rightarrow> signed_transaction io"
where
  "createCeloTransferTransaction c validateCeloTransferTransactionParams input =
     (case validateCeloTransferTransactionParams input of
        Some e \<Rightarrow> io_throw e
      | None \<Rightarrow>
          (let w = transfer_input.wallet input;
               tokenSymbol = transfer_input.tokenSymbol input;
               amount = transfer_input.amount input;
               destination = transfer_input.destination input;
               memo = keep_truthy (transfer_input.memo input);
               testnet = resolve_testnet c (transfer_input.testnet input);
               amountWei = toWei c amount;
               (type', method, params, value', contractAddress, contractAbi) =
                 (if tokenSymbol = ''CELO'' then
                    (case memo of
                       Some m \<Rightarrow>
                         (CALL_CONTRACT_METHOD, Some ''transferWithComment'',
                          Some [destination, amountWei, m], None,
                          Some (getTokenAddress c CELO tokenSymbol testnet),
                          Some TRANSFER_COMMENT_METHOD_ABI)
                     | None \<Rightarrow> (TRANSFER, None, None, Some amount, None, None))
                  else
                    (CALL_CONTRACT_METHOD,
                     (case memo of Some m \<Rightarrow> Some ''transferWithComment'' | None \<Rightarrow> Some ''transfer''),
                     (case memo of
                        Some m \<Rightarrow> Some [destination, amountWei, m]
                      | None \<Rightarrow> Some [destination, amountWei]),
                     None,
                     (if tokenSymbol \<in> set [''cUSD'', ''cEUR'']
                      then Some (getTokenAddress c CELO tokenSymbol testnet)
                      else transfer_input.contractAddress input),
                     (case memo of
                        Some m \<Rightarrow> Some TRANSFER_COMMENT_METHOD_ABI
                      | None \<Rightarrow> Some TRANSFER_METHOD_ABI)));
               feeCurrency =
                 (if truthy_str (transfer_input.feeCurrency input) then
                    (if transfer_input.feeCurrency input = Some ''cUSD''
                     then Some (CUSD_CONTRACT_ADDRESS c testnet)
                     else if transfer_input.feeCurrency input = Some ''cEUR''
                     then Some (CEUR_CONTRACT_ADDRESS c testnet)
                     else transfer_input.feeCurrency input)
                  else transfer_input.feeCurrency input)
           in io_bind
                (getFeeInfo c w (transfer_input.fee input) CELO
                   (no_fee_data\<lparr>
                      fee_data.type' := Some type',
                      fee_data.destination := Some destination,
                      fee_data.amount := value',
                      fee_data.contractAddress := contractAddress,
                      fee_data.contractAbi := contractAbi,
                      fee_data.method' := method,
                      fee_data.params := params,
                      fee_data.feeCurrency := feeCurrency\<rparr>))
                (\<lambda>(info, networkFee).
                   io_bind
                     (local_build c (BuildCeloTransferTransaction \<lparr>
                        transfer_options.fromPrivateKey = wallet.privateKey w,
                        transfer_options.tokenSymbol = tokenSymbol,
                        transfer_options.amount = amount,
                        transfer_options.destination = destination,
                        transfer_options.memo = transfer_input.memo input,
                        transfer_options.fee = networkFee,
                        transfer_options.nonce = wallet_info.nonce info,
                        transfer_options.testnet = testnet,
                        transfer_options.contractAddress = contractAddress,
                        transfer_options.feeCurrency = feeCurrency\<rparr>))
                     (\<lambda>signedTx.
                        io_return \<lparr>
                          signed_transaction.signedTx = signedTx,
                          signed_transaction.protocol = CELO,
                          signed_transaction.type' = TRANSFER\<rparr>))))"

text \<open>
  The Ethereum, BSC and Avalanche transfers differ in the native symbol, the protocol
  and the builder. Their fee request carries no fee currency, and their builders get
  neither memo nor fee currency.
\<close>

definition createEthereumTransferTransaction ::
  "controller \<Rightarrow> (transfer_input \<Rightarrow> error option) \<Rightarrow> transfer_input \<Rightarrow> signed_transaction io"
where
  "createEthereumTransferTransaction c validateEthereumTransferTransactionParams input =
     (case validateEthereumTransferTransactionParams input of
        Some e \<Rightarrow> io_throw e
      | None \<Rightarrow>
          (let w = transfer_input.wallet input;
               tokenSymbol = transfer_input.tokenSymbol input;
               amount = transfer_input.amount input;
               destination = transfer_input.destination input;
               contractAddress = transfer_input.contractAddress input;
               native = (tokenSymbol = ''ETH'')
           in io_bind
                (getFeeInfo c w (transfer_input.fee input) ETHEREUM
                   (no_fee_data\<lparr>
                      fee_data.type' := Some (if native then TRANSFER else CALL_CONTRACT_METHOD),
                      fee_data.destination := Some destination,
                      fee_data.amount := (if native then Some amount else None),
                      fee_data.contractAddress := contractAddress,
                      fee_data.contractAbi := (if native then None else Some TRANSFER_METHOD_ABI),
                      fee_data.method' := (if native then None else Some ''transfer''),
                      fee_data.params :=
                        (if native then None else Some [destination, toWei c amount])\<rparr>))
                (\<lambda>(info, networkFee).
                   io_bind
                     (local_build c (BuildEthereumTransferTransaction \<lparr>
                        transfer_options.fromPrivateKey = wallet.privateKey w,
                        transfer_options.tokenSymbol = tokenSymbol,
                        transfer_options.amount = amount,
                        transfer_options.destination = destination,
                        transfer_options.memo = None,
                        transfer_options.fee = networkFee,
                        transfer_options.nonce = wallet_info.nonce info,
                        transfer_options.testnet = resolve_testnet c (transfer_input.testnet input),
                        transfer_options.contractAddress = contractAddress,
                        transfer_options.feeCurrency = None\<rparr>))
                     (\<lambda>signedTx.
                        io_return \<lparr>
                          signed_transaction.signedTx = signedTx,
                          signed_transaction.protocol = ETHEREUM,
                          signed_transaction.type' = TRANSFER\<rparr>))))"

definition createBscTransferTransaction ::
  "controller \<Rightarrow> (transfer_input \<Rightarrow> error option) \<Rightarrow> transfer_input \<Rightarrow> signed_transaction io"
where
  "createBscTransferTransaction c validateEthereumTransferTransactionParams input =
     (case validateEthereumTransferTransactionParams input of
        Some e \<Rightarrow> io_throw e
      | None \<Rightarrow>
          (let w = transfer_input.wallet input;
               tokenSymbol = transfer_input.tokenSymbol input;
               amount = transfer_input.amount input;
               destination = transfer_input.destination input;
               contractAddress = transfer_input.contractAddress input;
               native = (tokenSymbol = ''BNB'')
           in io_bind
                (getFeeInfo c w (transfer_input.fee input) BSC
                   (no_fee_data\<lparr>
                      fee_data.type' := Some (if native then TRANSFER else CALL_CONTRACT_METHOD),
                      fee_data.destination := Some destination,
                      fee_data.amount := (if native then Some amount else None),
                      fee_data.contractAddress := contractAddress,
                      fee_data.contractAbi := (if native then None else Some TRANSFER_METHOD_ABI),
                      fee_data.method' := (if native then None else Some ''transfer''),
                      fee_data.params :=
                        (if native then None else Some [destination, toWei c amount])\<rparr>))
                (\<lambda>(info, networkFee).
                   io_bind
                     (local_build c (BuildBscTransferTransaction \<lparr>
                        transfer_options.fromPrivateKey = wallet.privateKey w,
                        transfer_options.tokenSymbol = tokenSymbol,
                        transfer_options.amount = amount,
                        transfer_options.destination = destination,
                        transfer_options.memo = None,
                        transfer_options.fee = networkFee,
                        transfer_options.nonce = wallet_info.nonce info,
                        transfer_options.testnet = resolve_testnet c (transfer_input.testnet input),
                        transfer_options.contractAddress = contractAddress,
                        transfer_options.feeCurrency = None\<rparr>))
                     (\<lambda>signedTx.
                        io_return \<lparr>
                          signed_transaction.signedTx = signedTx,
                          signed_transaction.protocol = BSC,
                          signed_transaction.type' = TRANSFER\<rparr>))))"

definition createAvaxCChainTransferTransaction ::
  "controller \<Rightarrow> (transfer_input \<Rightarrow> error option) \<Rightarrow> transfer_input \<Rightarrow> signed_transaction io"
where
  "createAvaxCChainTransferTransaction c validateEthereumTransferTransactionParams input =
     (case validateEthereumTransferTransactionParams input of
        Some e \<Rightarrow> io_throw e
      | None \<Rightarrow>
          (let w = transfer_input.wallet input;
               tokenSymbol = transfer_input.tokenSymbol input;
               amount = transfer_input.amount input;
               destination = transfer_input.destination input;
               contractAddress = transfer_input.contractAddress input;
               native = (tokenSymbol = ''AVAX'')
           in io_bind
                (getFeeInfo c w (transfer_input.fee input) AVAXCCHAIN
                   (no_fee_data\<lparr>
                      fee_data.type' := Some (if native then TRANSFER else CALL_CONTRACT_METHOD),
                      fee_data.destination := Some destination,
                      fee_data.amount := (if native then Some amount else None),
                      fee_data.contractAddress := contractAddress,
                      fee_data.contractAbi := (if native then None else Some TRANSFER_METHOD_ABI),
                      fee_data.method' := (if native then None else Some ''transfer''),
                      fee_data.params :=
                        (if native then None else Some [destination, toWei c amount])\<rparr>))
                (\<lambda>(info, networkFee).
                   io_bind
                     (local_build c (BuildAvaxCChainTransferTransaction \<lparr>
                        transfer_options.fromPrivateKey = wallet.privateKey w,
                        transfer_options.tokenSymbol = tokenSymbol,
                        transfer_options.amount = amount,
                        transfer_options.destination = destination,
                        transfer_options.memo = None,
                        transfer_options.fee = networkFee,
                        transfer_options.nonce = wallet_info.nonce info,
                        transfer_options.testnet = resolve_testnet c (transfer_input.testnet input),
                        transfer_options.contractAddress = contractAddress,
                        transfer_options.feeCurrency = None\<rparr>))
                     (\<lambda>signedTx.
                        io_return \<lparr>
                          signed_transaction.signedTx = signedTx,
                          signed_transaction.protocol = AVAXCCHAIN,
                          signed_transaction.type' = TRANSFER\<rparr>))))"

text \<open>The dispatch shared by the call, deploy and token-deploy constructions is written
  out in each of them, as in the source.\<close>

definition createSmartContractTransaction ::
  "controller \<Rightarrow> (contract_input \<Rightarrow> error option) \<Rightarrow> contract_input \<Rightarrow> signed_transaction io"
where
  "createSmartContractTransaction c validateSmartContractTransactionParams input =
     (case validateSmartContractTransactionParams input of
        Some e \<Rightarrow> io_throw e
      | None \<Rightarrow>
          (let w = contract_input.wallet input;
               protocol = contract_input.protocol input
           in io_bind
                (getFeeInfo c w (contract_input.fee input) protocol
                   (no_fee_data\<lparr>
                      fee_data.type' := Some CALL_CONTRACT_METHOD,
                      fee_data.contractAddress := contract_input.contractAddress input,
                      fee_data.contractAbi := contract_input.contractAbi input,
                      fee_data.method' := contract_input.method' input,
                      fee_data.params := contract_input.params input\<rparr>))
                (\<lambda>(info, networkFee).
                   (let transactionOptions = \<lparr>
                          contract_options.source = None,
                          contract_options.contractName = None,
                          contract_options.fromPrivateKey = wallet.privateKey w,
                          contract_options.nonce = wallet_info.nonce info,
                          contract_options.value' = contract_input.value' input,
                          contract_options.contractAddress = contract_input.contractAddress input,
                          contract_options.contractAbi = contract_input.contractAbi input,
                          contract_options.method' = contract_input.method' input,
                          contract_options.params = contract_input.params input,
                          contract_options.fee = networkFee,
                          contract_options.feeCurrency = contract_input.feeCurrency input,
                          contract_options.testnet =
                            resolve_testnet c (contract_input.testnet input),
                          contract_options.config = None,
                          contract_options.tokenType = None,
                          contract_options.protocol = None\<rparr>
                    in io_bind
                         (if protocol = CELO then
                            local_build c (BuildCeloSmartContractTransaction transactionOptions)
                          else if protocol \<in> set [ETHEREUM, BSC, AVAXCCHAIN] then
                            local_build c (BuildEthereumSmartContractTransaction
                              (transactionOptions\<lparr>contract_options.protocol := Some protocol\<rparr>))
                          else io_throw
                            (GenericException ''Invalid protocol'' (Some ''InvalidTypeException'')))
                         (\<lambda>signedTx.
                            io_return \<lparr>
                              signed_transaction.signedTx = signedTx,
                              signed_transaction.protocol = protocol,
                              signed_transaction.type' = CALL_CONTRACT_METHOD\<rparr>)))))"

definition createSmartContractDeployTransaction ::
  "controller \<Rightarrow> (contract_input \<Rightarrow> error option) \<Rightarrow> contract_input \<Rightarrow> signed_transaction io"
where
  "createSmartContractDeployTransaction c validateSmartContractDeployTransactionParams input =
     (case validateSmartContractDeployTransactionParams input of
        Some e \<Rightarrow> io_throw e
      | None \<Rightarrow>
          (let w = contract_input.wallet input;
               protocol = contract_input.protocol input
           in io_bind
                (getFeeInfo c w (contract_input.fee input) protocol
                   (no_fee_data\<lparr>
                      fee_data.type' := Some DEPLOY_CONTRACT,
                      fee_data.params := contract_input.params input,
                      fee_data.contractName := contract_input.contractName input,
                      fee_data.source := contract_input.source input\<rparr>))
                (\<lambda>(info, networkFee).
                   (let transactionOptions = \<lparr>
                          contract_options.source = contract_input.source input,
                          contract_options.contractName = contract_input.contractName input,
                          contract_options.fromPrivateKey = wallet.privateKey w,
                          contract_options.nonce = wallet_info.nonce info,
                          contract_options.value' = None,
                          contract_options.contractAddress = None,
                          contract_options.contractAbi = None,
                          contract_options.method' = None,
                          contract_options.params = contract_input.params input,
                          contract_options.fee = networkFee,
                          contract_options.feeCurrency = contract_input.feeCurrency input,
                          contract_options.testnet =
                            resolve_testnet c (contract_input.testnet input),
                          contract_options.config = Some (controller.config c),
                          contract_options.tokenType = None,
                          contract_options.protocol = None\<rparr>
                    in io_bind
                         (if protocol = CELO then
                            local_build c
                              (BuildCeloSmartContractDeployTransaction transactionOptions)
                          else if protocol \<in> set [ETHEREUM, BSC, AVAXCCHAIN] then
                            local_build c (BuildEthereumSmartContractDeployTransaction
                              (transactionOptions\<lparr>contract_options.protocol := Some protocol\<rparr>))
                          else io_throw
                            (GenericException ''Invalid protocol'' (Some ''InvalidTypeException'')))
                         (\<lambda>signedTx.
                            io_return \<lparr>
                              signed_transaction.signedTx = signedTx,
                              signed_transaction.protocol = protocol,
                              signed_transaction.type' = DEPLOY_CONTRACT\<rparr>)))))"

definition createTokenDeployTransaction ::
  "controller \<Rightarrow> (contract_input \<Rightarrow> error option) \<Rightarrow> contract_input \<Rightarrow> signed_transaction io"
where
  "createTokenDeployTransaction c validateTokenDeployTransactionParams input =
     (case validateTokenDeployTransactionParams input of
        Some e \<Rightarrow> io_throw e
      | None \<Rightarrow>
          (let w = contract_input.wallet input;
               protocol = contract_input.protocol input;
               tokenType = contract_input.tokenType input
           in io_bind
                (getFeeInfo c w (contract_input.fee input) protocol
                   (no_fee_data\<lparr>
                      fee_data.type' := Some (OtherType (''DEPLOY_'' @ tokenType)),
                      fee_data.params := contract_input.params input,
                      fee_data.tokenType := Some tokenType\<rparr>))
                (\<lambda>(info, networkFee).
                   (let transactionOptions = \<lparr>
                          contract_options.source = None,
                          contract_options.contractName = None,
                          contract_options.fromPrivateKey = wallet.privateKey w,
                          contract_options.nonce = wallet_info.nonce info,
                          contract_options.value' = None,
                          contract_options.contractAddress = None,
                          contract_options.contractAbi = None,
                          contract_options.method' = None,
                          contract_options.params = contract_input.params input,
                          contract_options.fee = networkFee,
                          contract_options.feeCurrency = contract_input.feeCurrency input,
                          contract_options.testnet =
                            resolve_testnet c (contract_input.testnet input),
                          contract_options.config = Some (controller.config c),
                          contract_options.tokenType = Some tokenType,
                          contract_options.protocol = None\<rparr>
                    in io_bind
                         (if protocol = CELO then
                            local_build c
                              (BuildCeloSmartContractDeployTransaction transactionOptions)
                          else if protocol \<in> set [ETHEREUM, BSC, AVAXCCHAIN] then
                            local_build c (BuildEthereumSmartContractDeployTransaction
                              (transactionOptions\<lparr>contract_options.protocol := Some protocol\<rparr>))
                          else io_throw
                            (GenericException ''Invalid protocol'' (Some ''InvalidTypeException'')))
                         (\<lambda>signedTx.
                            io_return \<lparr>
                              signed_transaction.signedTx = signedTx,
                              signed_transaction.protocol = protocol,
                              signed_transaction.type' = DEPLOY_CONTRACT\<rparr>)))))"

section \<open>Reading a record of calls\<close>

text \<open>The fee an account-chain builder was called with.\<close>

fun built_fee :: "event \<Rightarrow> fee_obj option" where
  "built_fee (BuildCeloTransferTransaction opts) = Some (transfer_options.fee opts)"
| "built_fee (BuildEthereumTransferTransaction opts) = Some (transfer_options.fee opts)"
| "built_fee (BuildBscTransferTransaction opts) = Some (transfer_options.fee opts)"
| "built_fee (BuildAvaxCChainTransferTransaction opts) = Some (transfer_options.fee opts)"
| "built_fee (BuildCeloSmartContractTransaction opts) = Some (contract_options.fee opts)"
| "built_fee (BuildEthereumSmartContractTransaction opts) = Some (contract_options.fee opts)"
| "built_fee (BuildCeloSmartContractDeployTransaction opts) = Some (contract_options.fee opts)"
| "built_fee (BuildEthereumSmartContractDeployTransaction opts) = Some (contract_options.fee opts)"
| "built_fee ev = None"

definition built_fees :: "event list \<Rightarrow> fee_obj list" where
  "built_fees tr = List.map_filter built_fee tr"

text \<open>The quotation the remote API returned to a fee request.\<close>

fun quote_of :: "controller \<Rightarrow> event \<Rightarrow> fee_obj option" where
  "quote_of c (GetFee d p) = (case requestFee c d p of Inr q \<Rightarrow> Some q | Inl e \<Rightarrow> None)"
| "quote_of c ev = None"

definition quotes :: "controller \<Rightarrow> event list \<Rightarrow> fee_obj list" where
  "quotes c tr = List.map_filter (quote_of c) tr"

text \<open>
  The constructions that go through \<open>_getFeeInfo\<close>, each with the fee override of its
  intent: the four transfers on a transfer intent, the contract call, contract deploy
  and token deploy on a contract intent.
\<close>

definition account_chain_constructions ::
  "controller \<Rightarrow> (transfer_input \<Rightarrow> error option) \<Rightarrow> (contract_input \<Rightarrow> error option)
    \<Rightarrow> transfer_input \<Rightarrow> contract_input \<Rightarrow> (fee_obj option \<times> signed_transaction io) list"
where
  "account_chain_constructions c validate_transfer validate_contract ti ci =
     [(transfer_input.fee ti, createCeloTransferTransaction c validate_transfer ti),
      (transfer_input.fee ti, createEthereumTransferTransaction c validate_transfer ti),
      (transfer_input.fee ti, createBscTransferTransaction c validate_transfer ti),
      (transfer_input.fee ti, createAvaxCChainTransferTransaction c validate_transfer ti),
      (contract_input.fee ci, createSmartContractTransaction c validate_contract ci),
      (contract_input.fee ci, createSmartContractDeployTransaction c validate_contract ci),
      (contract_input.fee ci, createTokenDeployTransaction c validate_contract ci)]"

section \<open>A sample environment\<close>

text \<open>
  A controller whose remote API answers as the mocked API of the Celo transfer test
  does (nonce \<open>'2'\<close>, gas 21000, gas price \<open>'4000000'\<close>, chain id 44787), and whose builders
  sign anything.
\<close>

definition sample_info :: wallet_info where
  "sample_info = \<lparr>
     wallet_info.nonce = JsString ''2'', wallet_info.sequence = JsNumber 7,
     wallet_info.ledgerCurrentIndex = 1000\<rparr>"

definition sample_quote :: fee_obj where
  "sample_quote = \<lparr>
     gas = JsNumber 21000, gasPrice = JsString ''4000000'', chainId = JsNumber 44787,
     estimateValue = JsString ''12''\<rparr>"

definition sample_controller :: controller where
  "sample_controller = \<lparr>
     controller.config = \<lparr>config.environment = ''development'', config.apiKey = ''key''\<rparr>,
     requestWalletInfo = (\<lambda>a p. Inr sample_info),
     requestFee = (\<lambda>d p. Inr sample_quote),
     requestUTXOs = (\<lambda>a p. Inr (ArrayBody [])),
     requestTransactionByHash = (\<lambda>h p. Inl (Failure ''not found'')),
     requestLatestBlock = (\<lambda>p. Inr ''blockhash''),
     feeRejectsFirst = False,
     handleRequestError = (\<lambda>e. e),
     toWei = (\<lambda>a. if a = ''0.1'' then ''100000000000000000'' else a),
     toHTRUnit = (\<lambda>a. if a = ''0.03'' then 3 else 0),
     getTokenAddress = (\<lambda>p s t. ''0xF194afDf50B03e69Bd7D057c1Aa9e10c9954E4C9''),
     CUSD_CONTRACT_ADDRESS = (\<lambda>t. ''0x874069Fa1Eb16D44d622F2e0Ca25eeA172369bC1''),
     CEUR_CONTRACT_ADDRESS = (\<lambda>t. ''0x10c892A6EC43a53E45D0B916B4b7D383B1b78C0F''),
     build = (\<lambda>ev. Inr ''0xsigned'')\<rparr>"

definition sample_wallet :: wallet where
  "sample_wallet = \<lparr>
     wallet.address = ''0xabc'', wallet.privateKey = ''0xkey'', wallet.publicKey = ''0xpub''\<rparr>"

definition sample_transfer :: transfer_input where
  "sample_transfer = \<lparr>
     transfer_input.wallet = sample_wallet,
     transfer_input.tokenSymbol = ''CELO'',
     transfer_input.amount = ''0.1'',
     transfer_input.destination = ''0x3f2f3D45196D7B99D0a615e8f530165eCb93e772'',
     transfer_input.memo = Some ''create-transfer'',
     transfer_input.fee = None,
     transfer_input.testnet = Some True,
     transfer_input.contractAddress = None,
     transfer_input.feeCurrency = None\<rparr>"

definition sample_contract :: contract_input where
  "sample_contract = \<lparr>
     contract_input.wallet = sample_wallet,
     contract_input.fee = None,
     contract_input.testnet = Some True,
     contract_input.value' = None,
     contract_input.contractAddress = None,
     contract_input.contractAbi = None,
     contract_input.method' = None,
     contract_input.params = Some [],
     contract_input.protocol = ETHEREUM,
     contract_input.feeCurrency = None,
     contract_input.source = Some ''contract C {}'',
     contract_input.contractName = Some ''C'',
     contract_input.tokenType = ''ERC20''\<rparr>"

text \<open>A validator that accepts every intent.\<close>

definition accept :: "'a \<Rightarrow> error option" where
  "accept input = None"

definition sample_eth_transfer :: transfer_input where
  "sample_eth_transfer =
     sample_transfer\<lparr>transfer_input.tokenSymbol := ''ETH'', transfer_input.memo := None\<rparr>"

text \<open>A field of a fee override is present when it is not \<open>undefined\<close>. An override
  is admitted when each of \<open>gas\<close> and \<open>gasPrice\<close> that is present has a truthy value.\<close>

definition present :: "js_value \<Rightarrow> bool" where
  "present v = (v \<noteq> JsUndefined)"

definition admitted_override :: "fee_obj option \<Rightarrow> bool" where
  "admitted_override ov =
     (case ov of
        None \<Rightarrow> True
      | Some x \<Rightarrow> (present (gas x) \<longrightarrow> truthy (gas x))
                \<and> (present (gasPrice x) \<longrightarrow> truthy (gasPrice x)))"

text \<open>Validators that check the fee override of an intent and nothing else, and an
  override that supplies both fields.\<close>

definition fee_checking_transfer :: "transfer_input \<Rightarrow> error option" where
  "fee_checking_transfer ti =
     (if admitted_override (transfer_input.fee ti) then None
      else Some (GenericException ''Invalid fee'' (Some ''InvalidTypeException'')))"

definition fee_checking_contract :: "contract_input \<Rightarrow> error option" where
  "fee_checking_contract ci =
     (if admitted_override (contract_input.fee ci) then None
      else Some (GenericException ''Invalid fee'' (Some ''InvalidTypeException'')))"

definition full_override :: fee_obj where
  "full_override = \<lparr>
     gas = JsNumber 50000, gasPrice = JsString ''5'', chainId = JsUndefined,
     estimateValue = JsUndefined\<rparr>"

section \<open>Shape of a native Celo transfer\<close>

text \<open>
  What the memo decides for a transfer of the native asset: the fields of the fee
  request, and the contract address the builder is given. A memo is attached when it
  is a non-empty string.
\<close>

definition celo_request_ok :: "controller \<Rightarrow> transfer_input \<Rightarrow> fee_data \<Rightarrow> bool" where
  "celo_request_ok c ti d =
     (case keep_truthy (transfer_input.memo ti) of
         Some m \<Rightarrow>
           fee_data.type' d = Some CALL_CONTRACT_METHOD
           \<and> fee_data.method' d = Some ''transferWithComment''
           \<and> fee_data.params d =
               Some [transfer_input.destination ti, toWei c (transfer_input.amount ti), m]
           \<and> fee_data.amount d = None
           \<and> fee_data.contractAddress d =
               keep_truthy (Some (getTokenAddress c CELO ''CELO''
                 (resolve_testnet c (transfer_input.testnet ti))))
           \<and> fee_data.contractAbi d = Some TRANSFER_COMMENT_METHOD_ABI
       | None \<Rightarrow>
           fee_data.type' d = Some TRANSFER
           \<and> fee_data.method' d = None
           \<and> fee_data.params d = None
           \<and> fee_data.amount d = keep_truthy (Some (transfer_input.amount ti))
           \<and> fee_data.contractAddress d = None
           \<and> fee_data.contractAbi d = None)"

definition celo_build_ok :: "controller \<Rightarrow> transfer_input \<Rightarrow> event \<Rightarrow> bool" where
  "celo_build_ok c ti ev =
     (case ev of
        BuildCeloTransferTransaction opts \<Rightarrow>
          transfer_options.contractAddress opts =
            (case keep_truthy (transfer_input.memo ti) of
               Some m \<Rightarrow> Some (getTokenAddress c CELO ''CELO''
                           (resolve_testnet c (transfer_input.testnet ti)))
             | None \<Rightarrow> None)
          \<and> transfer_options.memo opts = transfer_input.memo ti
          \<and> transfer_options.tokenSymbol opts = transfer_input.tokenSymbol ti
          \<and> transfer_options.amount opts = transfer_input.amount ti
          \<and> transfer_options.destination opts = transfer_input.destination ti
      | _ \<Rightarrow> False)"

section \<open>Ledger-sequence constructions (Ripple)\<close>

text \<open>The flat network fee: the caller's when it is truthy, the quoted estimate otherwise.\<close>

definition resolve_flat_fee ::
  "controller \<Rightarrow> js_value \<Rightarrow> transaction_type \<Rightarrow> protocol \<Rightarrow> js_value io"
where
  "resolve_flat_fee c fee_override ty proto =
     (if \<not> truthy fee_override then
        io_bind (getFee c (no_fee_data\<lparr>fee_data.type' := Some ty\<rparr>) proto)
          (\<lambda>quote. io_return (estimateValue quote))
      else io_return fee_override)"

definition createRippleTrustlineTransaction ::
  "controller \<Rightarrow> (ripple_input \<Rightarrow> error option) \<Rightarrow> ripple_input \<Rightarrow> signed_transaction io"
where
  "createRippleTrustlineTransaction c validateRippleTrustlineTransactionParams input =
     (case validateRippleTrustlineTransactionParams input of
        Some e \<Rightarrow> io_throw e
      | None \<Rightarrow>
          (let w = ripple_input.wallet input
           in io_bind (getWalletInfo c (wallet.address w) RIPPLE)
                (\<lambda>info.
                   io_bind (resolve_flat_fee c (ripple_input.fee input) CHANGE_TRUST RIPPLE)
                     (\<lambda>networkFee.
                        io_bind
                          (local_build c (BuildRippleTrustlineTransaction \<lparr>
                             ripple_options.fromAddress = wallet.address w,
                             ripple_options.fromPrivateKey = wallet.privateKey w,
                             ripple_options.assetSymbol = ripple_input.assetSymbol input,
                             ripple_options.issuer = ripple_input.issuer input,
                             ripple_options.amount = None,
                             ripple_options.destination = None,
                             ripple_options.limit = ripple_input.limit input,
                             ripple_options.memo = ripple_input.memo input,
                             ripple_options.fee = networkFee,
                             ripple_options.sequence = wallet_info.sequence info,
                             ripple_options.maxLedgerVersion =
                               wallet_info.ledgerCurrentIndex info + 10,
                             ripple_options.testnet =
                               resolve_testnet c (ripple_input.testnet input)\<rparr>))
                          (\<lambda>signedTx.
                             io_return \<lparr>
                               signed_transaction.signedTx = signedTx,
                               signed_transaction.protocol = RIPPLE,
                               signed_transaction.type' = CHANGE_TRUST\<rparr>)))))"

definition createRippleTransferTransaction ::
  "controller \<Rightarrow> (ripple_input \<Rightarrow> error option) \<Rightarrow> ripple_input \<Rightarrow> signed_transaction io"
where
  "createRippleTransferTransaction c validateRippleTransferTransactionParams input =
     (case validateRippleTransferTransactionParams input of
        Some e \<Rightarrow> io_throw e
      | None \<Rightarrow>
          (let w = ripple_input.wallet input
           in io_bind (getWalletInfo c (wallet.address w) RIPPLE)
                (\<lambda>info.
                   io_bind (resolve_flat_fee c (ripple_input.fee input) TRANSFER RIPPLE)
                     (\<lambda>networkFee.
                        io_bind
                          (local_build c (BuildRippleTransferTransaction \<lparr>
                             ripple_options.fromAddress = wallet.address w,
                             ripple_options.fromPrivateKey = wallet.privateKey w,
                             ripple_options.assetSymbol = ripple_input.assetSymbol input,
                             ripple_options.issuer = ripple_input.issuer input,
                             ripple_options.amount = ripple_input.amount input,
                             ripple_options.destination = ripple_input.destination input,
                             ripple_options.limit = None,
                             ripple_options.memo = ripple_input.memo input,
                             ripple_options.fee = networkFee,
                             ripple_options.sequence = wallet_info.sequence info,
                             ripple_options.maxLedgerVersion =
                               wallet_info.ledgerCurrentIndex info + 10,
                             ripple_options.testnet =
                               resolve_testnet c (ripple_input.testnet input)\<rparr>))
                          (\<lambda>signedTx.
                             io_return \<lparr>
                               signed_transaction.signedTx = signedTx,
                               signed_transaction.protocol = RIPPLE,
                               signed_transaction.type' = TRANSFER\<rparr>)))))"

text \<open>The options a Ripple builder was called with.\<close>

fun ripple_options_of :: "event \<Rightarrow> ripple_options option" where
  "ripple_options_of (BuildRippleTransferTransaction opts) = Some opts"
| "ripple_options_of (BuildRippleTrustlineTransaction opts) = Some opts"
| "ripple_options_of ev = None"

definition ripple_builds :: "event list \<Rightarrow> ripple_options list" where
  "ripple_builds tr = List.map_filter ripple_options_of tr"

section \<open>Solana token burn and mint\<close>

text \<open>The latest-block request is made directly, outside \<open>handleRequestError\<close>.\<close>

definition getLatestBlock :: "controller \<Rightarrow> protocol \<Rightarrow> string io" where
  "getLatestBlock c proto = io_call (GetLatestBlock proto) (requestLatestBlock c proto)"

definition createSolanaTokenBurnTransaction ::
  "controller \<Rightarrow> (solana_input \<Rightarrow> error option) \<Rightarrow> solana_input \<Rightarrow> signed_transaction io"
where
  "createSolanaTokenBurnTransaction c validateSolanaTransferTransaction input =
     (case validateSolanaTransferTransaction input of
        Some e \<Rightarrow> io_throw e
      | None \<Rightarrow>
          io_bind (getLatestBlock c SOLANA)
            (\<lambda>latestBlock.
               io_bind
                 (local_build c (BuildSolanaTokenBurnTransaction \<lparr>
                    solana_options.from' = solana_input.wallet input,
                    solana_options.to = None,
                    solana_options.token = solana_input.token input,
                    solana_options.amount = solana_input.amount input,
                    solana_options.latestBlock = latestBlock\<rparr>))
                 (\<lambda>signedTx.
                    io_return \<lparr>
                      signed_transaction.signedTx = signedTx,
                      signed_transaction.protocol = SOLANA,
                      signed_transaction.type' = SOLANA_TOKEN_BURN\<rparr>)))"

definition createSolanaTokenMintTransaction ::
  "controller \<Rightarrow> (solana_input \<Rightarrow> error option) \<Rightarrow> solana_input \<Rightarrow> signed_transaction io"
where
  "createSolanaTokenMintTransaction c validateSolanaTransferTransaction input =
     (case validateSolanaTransferTransaction input of
        Some e \<Rightarrow> io_throw e
      | None \<Rightarrow>
          io_bind (getLatestBlock c SOLANA)
            (\<lambda>latestBlock.
               io_bind
                 (local_build c (MintSolanaToken \<lparr>
                    solana_options.from' = solana_input.wallet input,
                    solana_options.to = solana_input.destination input,
                    solana_options.token = solana_input.token input,
                    solana_options.amount = solana_input.amount input,
                    solana_options.latestBlock = latestBlock\<rparr>))
                 (\<lambda>signedTx.
                    io_return \<lparr>
                      signed_transaction.signedTx = signedTx,
                      signed_transaction.protocol = SOLANA,
                      signed_transaction.type' = SOLANA_TOKEN_BURN\<rparr>)))"

definition sample_ripple :: ripple_input where
  "sample_ripple = \<lparr>
     ripple_input.wallet = sample_wallet,
     ripple_input.assetSymbol = ''XRP'',
     ripple_input.issuer = None,
     ripple_input.amount = Some ''1'',
     ripple_input.destination = Some ''rDest'',
     ripple_input.limit = Some ''100'',
     ripple_input.memo = None,
     ripple_input.fee = JsUndefined,
     ripple_input.testnet = None\<rparr>"

definition sample_solana :: solana_input where
  "sample_solana = \<lparr>
     solana_input.wallet = ''solana-wallet'',
     solana_input.destination = Some ''solana-destination'',
     solana_input.token = ''token-mint-address'',
     solana_input.amount = ''5''\<rparr>"

section \<open>Unspent-output constructions\<close>

text \<open>\<open>xs[i]\<close> for a JavaScript number \<open>i\<close>: \<open>undefined\<close> outside the array.\<close>

definition nth_opt :: "'a list \<Rightarrow> int \<Rightarrow> 'a option" where
  "nth_opt xs i = (if 0 \<le> i \<and> i < int (length xs) then Some (xs ! nat i) else None)"

text \<open>\<open>utxos.length\<close>: \<open>undefined\<close> on the boolean \<open>false\<close>.\<close>

definition utxos_length :: "utxos_result \<Rightarrow> nat option" where
  "utxos_length utxos = (case utxos of JsFalse \<Rightarrow> None | UtxoArray us \<Rightarrow> Some (length us))"

subsection \<open>Bitcoin transfer\<close>

text \<open>The loop over the outputs discovered for a wallet: each becomes an \<open>Input\<close>.\<close>

fun wallet_inputs :: "controller \<Rightarrow> wallet \<Rightarrow> utxo list \<Rightarrow> tx_input list io" where
  "wallet_inputs c w [] = io_return []"
| "wallet_inputs c w (u # us) =
     io_bind (getTransactionByHash c (utxo.txHash u) BITCOIN)
       (\<lambda>tx. io_bind (wallet_inputs c w us)
          (\<lambda>rest. io_return
             (\<lparr>tx_input.txHash = utxo.txHash u,
               tx_input.index = utxo.index u,
               tx_input.privateKey = wallet.privateKey w,
               tx_input.hex = Some (transaction.hex tx),
               tx_input.blockhash = Some (transaction.blockhash tx),
               tx_input.value' = Some (utxo.value' u),
               tx_input.token = Some (utxo.token u)\<rparr> # rest)))"

text \<open>
  The loop over caller-supplied inputs: each transaction is resolved, the index is
  checked against its outputs (an output is an object, hence truthy), and \<open>hex\<close> and
  \<open>blockhash\<close> are filled in.
\<close>

fun explicit_inputs :: "controller \<Rightarrow> tx_input list \<Rightarrow> tx_input list io" where
  "explicit_inputs c [] = io_return []"
| "explicit_inputs c (i # is) =
     io_bind (getTransactionByHash c (tx_input.txHash i) BITCOIN)
       (\<lambda>tx.
          (case nth_opt (transaction.vout tx) (tx_input.index i) of
             None \<Rightarrow>
               io_throw (GenericException (''Invalid UTXO hash '' @ tx_input.txHash i)
                 (Some ''InvalidParams''))
           | Some out \<Rightarrow>
               io_bind (explicit_inputs c is)
                 (\<lambda>rest. io_return
                    (i\<lparr>tx_input.hex := Some (transaction.hex tx),
                       tx_input.blockhash := Some (transaction.blockhash tx)\<rparr> # rest))))"

definition createBitcoinTransferTransaction ::
  "controller \<Rightarrow> (bitcoin_input \<Rightarrow> error option) \<Rightarrow> bitcoin_input \<Rightarrow> signed_transaction io"
where
  "createBitcoinTransferTransaction c validateBitcoinTransferTransactionParams input =
     (case validateBitcoinTransferTransactionParams input of
        Some e \<Rightarrow> io_throw e
      | None \<Rightarrow>
          io_bind
            (case bitcoin_input.wallet input of
               Some w \<Rightarrow>
                 io_bind (getUTXOs c (wallet.address w) BITCOIN)
                   (\<lambda>utxos.
                      (case utxos of
                         JsFalse \<Rightarrow> io_return (Some [])
                       | UtxoArray us \<Rightarrow>
                           io_bind (wallet_inputs c w us) (\<lambda>ins. io_return (Some ins))))
             | None \<Rightarrow>
                 (case bitcoin_input.inputs input of
                    Some ins \<Rightarrow>
                      io_bind (explicit_inputs c ins) (\<lambda>ins'. io_return (Some ins'))
                  | None \<Rightarrow> io_return None))
            (\<lambda>inputs.
               io_bind (resolve_flat_fee c (bitcoin_input.fee input) TRANSFER BITCOIN)
                 (\<lambda>networkFee.
                    io_bind
                      (local_build c (BuildBitcoinTransferTransaction \<lparr>
                         bitcoin_options.wallet = bitcoin_input.wallet input,
                         bitcoin_options.inputs = inputs,
                         bitcoin_options.outputs = bitcoin_input.outputs input,
                         bitcoin_options.fee = networkFee,
                         bitcoin_options.testnet =
                           resolve_testnet c (bitcoin_input.testnet input)\<rparr>))
                      (\<lambda>signedTx.
                         io_return \<lparr>
                           signed_transaction.signedTx = signedTx,
                           signed_transaction.protocol = BITCOIN,
                           signed_transaction.type' = TRANSFER\<rparr>))))"

subsection \<open>Hathor transfer from a wallet\<close>

text \<open>\<open>outputs[i].token\<close> after the first loop: \<open>'HTR'\<close>, \<open>null\<close> and \<open>undefined\<close> become
  \<open>'00'\<close>.\<close>

definition normalize_token :: "string option \<Rightarrow> string" where
  "normalize_token t = (case t of None \<Rightarrow> ''00'' | Some s \<Rightarrow> if s = ''HTR'' then ''00'' else s)"

text \<open>\<open>Array.from\<close> of a \<open>Set\<close> filled in this order: first occurrences, in order.\<close>

fun set_add_all :: "string list \<Rightarrow> string list \<Rightarrow> string list" where
  "set_add_all acc [] = acc"
| "set_add_all acc (x # xs) = set_add_all (if x \<in> set acc then acc else acc @ [x]) xs"

text \<open>
  The loop over the discovered outputs. The transaction of an output is resolved only
  when its token is one of the transfer's tokens, and its \<open>token_data\<close> is read only when
  that token is not \<open>'00'\<close>.
\<close>

fun hathor_transfer_inputs ::
  "controller \<Rightarrow> wallet \<Rightarrow> string list \<Rightarrow> utxo list \<Rightarrow> tx_input list io"
where
  "hathor_transfer_inputs c w toks [] = io_return []"
| "hathor_transfer_inputs c w toks (u # us) =
     (if utxo.token u \<in> set toks then
        io_bind (getTransactionByHash c (utxo.txHash u) HATHOR)
          (\<lambda>tx.
             io_bind
               (if utxo.token u = ''00'' then io_return True
                else
                  (case nth_opt (transaction.outputs tx) (utxo.index u) of
                     None \<Rightarrow> io_throw (TypeError ''Cannot read properties of undefined'')
                   | Some out \<Rightarrow> io_return (hathor_output.token_data out \<notin> set [0, 129])))
               (\<lambda>eligible.
                  io_bind (hathor_transfer_inputs c w toks us)
                    (\<lambda>rest. io_return
                       (if eligible then
                          \<lparr>tx_input.txHash = utxo.txHash u,
                            tx_input.index = utxo.index u,
                            tx_input.privateKey = wallet.privateKey w,
                            tx_input.hex = None,
                            tx_input.blockhash = None,
                            tx_input.value' = Some (utxo.value' u),
                            tx_input.token = Some (utxo.token u)\<rparr> # rest
                        else rest))))
      else hathor_transfer_inputs c w toks us)"

definition createHathorTransferTransactionFromWallet ::
  "controller \<Rightarrow> (hathor_transfer_input \<Rightarrow> error option) \<Rightarrow> hathor_transfer_input
    \<Rightarrow> signed_transaction io"
where
  "createHathorTransferTransactionFromWallet c validateHathorTransferTransactionFromWallet input =
     (case validateHathorTransferTransactionFromWallet input of
        Some e \<Rightarrow> io_throw e
      | None \<Rightarrow>
          (let w = hathor_transfer_input.wallet input
           in io_bind (getUTXOs c (wallet.address w) HATHOR)
                (\<lambda>utxos.
                   if utxos_length utxos = Some 0 then
                     io_throw (GenericException ''No available UTXOs'' None)
                   else
                     (let outputs =
                            map (\<lambda>out. out\<lparr>hathor_transfer_output.token :=
                                   Some (normalize_token (hathor_transfer_output.token out))\<rparr>)
                              (hathor_transfer_input.outputs input);
                          tokens =
                            filter (\<lambda>t. t \<noteq> [])
                              (set_add_all []
                                 (map (\<lambda>out. normalize_token (hathor_transfer_output.token out))
                                    (hathor_transfer_input.outputs input)))
                      in io_bind
                           (case utxos of
                              JsFalse \<Rightarrow> io_return []
                            | UtxoArray us \<Rightarrow> hathor_transfer_inputs c w tokens us)
                           (\<lambda>inputs.
                              io_bind
                                (local_build c (BuildHathorTransferTransaction \<lparr>
                                   hathor_transfer_options.inputs = inputs,
                                   hathor_transfer_options.outputs = outputs,
                                   hathor_transfer_options.tokens = tokens,
                                   hathor_transfer_options.changeAddress = wallet.address w,
                                   hathor_transfer_options.testnet =
                                     resolve_testnet c (hathor_transfer_input.testnet input)\<rparr>))
                                (\<lambda>signedTx.
                                   io_return \<lparr>
                                     signed_transaction.signedTx = signedTx,
                                     signed_transaction.protocol = HATHOR,
                                     signed_transaction.type' = TRANSFER\<rparr>))))))"

subsection \<open>Hathor token operation from a wallet\<close>

text \<open>
  One turn of the selection loop on a discovered output \<open>u\<close> whose resolved output is
  \<open>out\<close>: the running sum and the inputs pushed so far, before and after.
\<close>

definition select_step ::
  "transaction_type \<Rightarrow> int \<Rightarrow> wallet \<Rightarrow> utxo \<Rightarrow> hathor_output \<Rightarrow> int \<times> tx_input list
    \<Rightarrow> int \<times> tx_input list"
where
  "select_step ty amountHTRUnit w u out acc =
     (let inputSum = fst acc;
          inputs = snd acc;
          pushed = inputs @ [\<lparr>
            tx_input.txHash = utxo.txHash u,
            tx_input.index = utxo.index u,
            tx_input.privateKey = wallet.privateKey w,
            tx_input.hex = None,
            tx_input.blockhash = None,
            tx_input.value' = None,
            tx_input.token = None\<rparr>]
      in if ty = HATHOR_TOKEN_MELT then
           (if hathor_output.token_data out \<notin> set [0, 129] then
              (if inputSum < amountHTRUnit
               then (inputSum + hathor_output.value' out, pushed)
               else (inputSum, inputs))
            else if hathor_output.token_data out = 129 \<and> hathor_output.value' out = 2
            then (inputSum, pushed)
            else (inputSum, inputs))
         else
           (if hathor_output.token_data out = 0 then
              (if inputSum < amountHTRUnit
               then (inputSum + hathor_output.value' out, pushed)
               else (inputSum, inputs))
            else if hathor_output.token_data out = 129 \<and> hathor_output.value' out = 1
            then (inputSum, pushed)
            else (inputSum, inputs)))"

fun hathor_token_select ::
  "controller \<Rightarrow> transaction_type \<Rightarrow> int \<Rightarrow> wallet \<Rightarrow> utxo list \<Rightarrow> int \<times> tx_input list
    \<Rightarrow> (int \<times> tx_input list) io"
where
  "hathor_token_select c ty amountHTRUnit w [] acc = io_return acc"
| "hathor_token_select c ty amountHTRUnit w (u # us) acc =
     io_bind (getTransactionByHash c (utxo.txHash u) HATHOR)
       (\<lambda>tx.
          (case nth_opt (transaction.outputs tx) (utxo.index u) of
             None \<Rightarrow> io_throw (TypeError ''Cannot read properties of undefined'')
           | Some out \<Rightarrow>
               hathor_token_select c ty amountHTRUnit w us
                 (select_step ty amountHTRUnit w u out acc)))"

text \<open>\<open>a || b\<close> on an optional string.\<close>

definition or_else :: "string option \<Rightarrow> string \<Rightarrow> string" where
  "or_else x d = (case x of None \<Rightarrow> d | Some s \<Rightarrow> if s = [] then d else s)"

text \<open>The \<open>filter\<close> on the discovered outputs, by operation kind.\<close>

definition token_candidates :: "transaction_type \<Rightarrow> string option \<Rightarrow> utxo list \<Rightarrow> utxo list" where
  "token_candidates ty uid us =
     (if ty = HATHOR_TOKEN_MELT then filter (\<lambda>u. Some (utxo.token u) = uid) us
      else filter (\<lambda>u. utxo.token u = ''00'' \<or> Some (utxo.token u) = uid) us)"

definition createHathorTokenTransactionFromWallet ::
  "controller \<Rightarrow> (hathor_token_input \<Rightarrow> error option) \<Rightarrow> hathor_token_input
    \<Rightarrow> signed_transaction io"
where
  "createHathorTokenTransactionFromWallet c validateHathorTokenTransactionFromWallet input =
     (case validateHathorTokenTransactionFromWallet input of
        Some e \<Rightarrow> io_throw e
      | None \<Rightarrow>
          (let w = hathor_token_input.wallet input;
               ty = hathor_token_input.type' input;
               amountHTRUnit = toHTRUnit c (hathor_token_input.amount input)
           in io_bind (getUTXOs c (wallet.address w) HATHOR)
                (\<lambda>discovered.
                   (case discovered of
                      JsFalse \<Rightarrow> io_throw (TypeError ''utxos.filter is not a function'')
                    | UtxoArray us \<Rightarrow>
                        (let utxos = token_candidates ty (hathor_token_input.tokenUid input) us
                         in if length utxos = 0 then
                              io_throw (HathorException ''No available UTXOs'')
                            else
                              io_bind (hathor_token_select c ty amountHTRUnit w utxos (0, []))
                                (\<lambda>(inputSum, inputs).
                                   io_bind
                                     (local_build c (BuildHathorTokenTransaction \<lparr>
                                        hathor_token_options.type' = ty,
                                        hathor_token_options.inputs = inputs,
                                        hathor_token_options.tokenUid =
                                          hathor_token_input.tokenUid input,
                                        hathor_token_options.tokenName =
                                          hathor_token_input.tokenName input,
                                        hathor_token_options.tokenSymbol =
                                          hathor_token_input.tokenSymbol input,
                                        hathor_token_options.address =
                                          or_else (hathor_token_input.address input)
                                            (wallet.address w),
                                        hathor_token_options.changeAddress =
                                          or_else (hathor_token_input.changeAddress input)
                                            (wallet.address w),
                                        hathor_token_options.mintAuthorityAddress =
                                          hathor_token_input.mintAuthorityAddress input,
                                        hathor_token_options.meltAuthorityAddress =
                                          hathor_token_input.meltAuthorityAddress input,
                                        hathor_token_options.amount =
                                          hathor_token_input.amount input,
                                        hathor_token_options.testnet =
                                          resolve_testnet c (hathor_token_input.testnet input),
                                        hathor_token_options.inputSum = inputSum\<rparr>))
                                     (\<lambda>signedTx.
                                        io_return \<lparr>
                                          signed_transaction.signedTx = signedTx,
                                          signed_transaction.protocol = HATHOR,
                                          signed_transaction.type' = ty\<rparr>)))))))"

section \<open>Conditions on what the remote API holds\<close>

text \<open>The transaction of a caller-supplied Bitcoin input can be fetched; it can be fetched
  and has no output at the input's index.\<close>

definition input_resolves :: "controller \<Rightarrow> tx_input \<Rightarrow> bool" where
  "input_resolves c i =
     (case requestTransactionByHash c (tx_input.txHash i) BITCOIN of
        Inr tx \<Rightarrow> True
      | Inl e \<Rightarrow> False)"

definition index_missing :: "controller \<Rightarrow> tx_input \<Rightarrow> bool" where
  "index_missing c i =
     (case requestTransactionByHash c (tx_input.txHash i) BITCOIN of
        Inr tx \<Rightarrow> nth_opt (transaction.vout tx) (tx_input.index i) = None
      | Inl e \<Rightarrow> False)"

definition sample_bitcoin_tx :: transaction where
  "sample_bitcoin_tx = \<lparr>
     transaction.hex = ''0200'', transaction.blockhash = ''00ab'',
     transaction.vout = [''out0'', ''out1''], transaction.outputs = []\<rparr>"

definition sample_bitcoin :: bitcoin_input where
  "sample_bitcoin = \<lparr>
     bitcoin_input.wallet = None,
     bitcoin_input.inputs = Some [
       \<lparr>tx_input.txHash = ''aa'', tx_input.index = 1, tx_input.privateKey = ''k1'',
        tx_input.hex = None, tx_input.blockhash = None, tx_input.value' = None,
        tx_input.token = None\<rparr>,
       \<lparr>tx_input.txHash = ''bb'', tx_input.index = 2, tx_input.privateKey = ''k2'',
        tx_input.hex = None, tx_input.blockhash = None, tx_input.value' = None,
        tx_input.token = None\<rparr>],
     bitcoin_input.outputs = [\<lparr>bitcoin_output.address = ''dest'', bitcoin_output.amount = ''0.5''\<rparr>],
     bitcoin_input.fee = JsUndefined,
     bitcoin_input.testnet = None\<rparr>"

section \<open>Reading a Hathor selection\<close>

text \<open>An output is identified by its transaction hash and index.\<close>

definition utxo_key :: "utxo \<Rightarrow> string \<times> int" where
  "utxo_key u = (utxo.txHash u, utxo.index u)"

definition input_key :: "tx_input \<Rightarrow> string \<times> int" where
  "input_key i = (tx_input.txHash i, tx_input.index i)"

text \<open>The output the remote API holds for an identifier, if any.\<close>

definition lookup_output :: "controller \<Rightarrow> string \<times> int \<Rightarrow> hathor_output option" where
  "lookup_output c k =
     (case requestTransactionByHash c (fst k) HATHOR of
        Inr tx \<Rightarrow> nth_opt (transaction.outputs tx) (snd k)
      | Inl e \<Rightarrow> None)"

text \<open>An ordinary value output of a token, and a melt-authority output.\<close>

definition ordinary_value :: "hathor_output \<Rightarrow> bool" where
  "ordinary_value out = (hathor_output.token_data out \<notin> set [0, 129])"

definition melt_authority :: "hathor_output \<Rightarrow> bool" where
  "melt_authority out =
     (hathor_output.token_data out = 129 \<and> hathor_output.value' out = 2)"

definition resolves :: "controller \<Rightarrow> utxo \<Rightarrow> bool" where
  "resolves c u = (lookup_output c (utxo_key u) \<noteq> None)"

definition is_ordinary :: "controller \<Rightarrow> string \<times> int \<Rightarrow> bool" where
  "is_ordinary c k = (case lookup_output c k of Some out \<Rightarrow> ordinary_value out | None \<Rightarrow> False)"

definition is_melt_authority :: "controller \<Rightarrow> string \<times> int \<Rightarrow> bool" where
  "is_melt_authority c k =
     (case lookup_output c k of Some out \<Rightarrow> melt_authority out | None \<Rightarrow> False)"

fun hathor_token_options_of :: "event \<Rightarrow> hathor_token_options option" where
  "hathor_token_options_of (BuildHathorTokenTransaction opts) = Some opts"
| "hathor_token_options_of ev = None"

definition hathor_token_builds :: "event list \<Rightarrow> hathor_token_options list" where
  "hathor_token_builds tr = List.map_filter hathor_token_options_of tr"

text \<open>The value of the output the remote API holds for an identifier (0 when it holds
  none).\<close>

definition output_value :: "controller \<Rightarrow> string \<times> int \<Rightarrow> int" where
  "output_value c k = (case lookup_output c k of Some out \<Rightarrow> hathor_output.value' out | None \<Rightarrow> 0)"

text \<open>
  The melt selection in the words of the amended claim C2, to be compared with the loop
  of the controller: the candidates are walked in discovery order and each is decided on
  its own. An ordinary value output is accepted when the value accumulated so far (from
  the ordinary outputs accepted before it) is below the amount, and skipped otherwise; a
  melt authority is accepted whatever the amount; any other output is skipped.
\<close>

fun melt_walk :: "controller \<Rightarrow> int \<Rightarrow> int \<Rightarrow> utxo list \<Rightarrow> utxo list" where
  "melt_walk c amt accumulated [] = []"
| "melt_walk c amt accumulated (u # us) =
     (if is_ordinary c (utxo_key u) then
        (if accumulated < amt
         then u # melt_walk c amt (accumulated + output_value c (utxo_key u)) us
         else melt_walk c amt accumulated us)
      else if is_melt_authority c (utxo_key u) then u # melt_walk c amt accumulated us
      else melt_walk c amt accumulated us)"

text \<open>The total value of the ordinary outputs among some outputs.\<close>

definition ordinary_total :: "controller \<Rightarrow> utxo list \<Rightarrow> int" where
  "ordinary_total c us =
     sum_list (map (\<lambda>u. output_value c (utxo_key u))
                 (filter (\<lambda>u. is_ordinary c (utxo_key u)) us))"

definition sample_melt :: hathor_token_input where
  "sample_melt = \<lparr>
     hathor_token_input.wallet = sample_wallet,
     hathor_token_input.tokenName = None,
     hathor_token_input.tokenSymbol = None,
     hathor_token_input.type' = HATHOR_TOKEN_MELT,
     hathor_token_input.tokenUid = Some ''tk'',
     hathor_token_input.mintAuthorityAddress = None,
     hathor_token_input.meltAuthorityAddress = None,
     hathor_token_input.amount = ''0.03'',
     hathor_token_input.address = None,
     hathor_token_input.changeAddress = None,
     hathor_token_input.testnet = None\<rparr>"

text \<open>
  A wallet holding, for the token \<open>tk\<close>, an ordinary output of value 5 and a melt
  authority (marker 129, value 2), discovered in this order, and an output of another
  token.
\<close>

definition sample_hathor_utxos :: "utxo list" where
  "sample_hathor_utxos = [
     \<lparr>utxo.txHash = ''t1'', utxo.index = 0, utxo.value' = 5, utxo.token = ''tk''\<rparr>,
     \<lparr>utxo.txHash = ''t2'', utxo.index = 0, utxo.value' = 2, utxo.token = ''tk''\<rparr>,
     \<lparr>utxo.txHash = ''t3'', utxo.index = 0, utxo.value' = 9, utxo.token = ''zz''\<rparr>]"

definition sample_hathor_tx :: "string \<Rightarrow> transaction" where
  "sample_hathor_tx h = \<lparr>
     transaction.hex = [], transaction.blockhash = [], transaction.vout = [],
     transaction.outputs =
       (if h = ''t2'' then [\<lparr>hathor_output.value' = 2, hathor_output.token_data = 129\<rparr>]
        else [\<lparr>hathor_output.value' = 5, hathor_output.token_data = 1\<rparr>])\<rparr>"

definition sample_hathor_controller :: controller where
  "sample_hathor_controller = sample_controller\<lparr>
     requestUTXOs := \<lambda>a p. Inr (ArrayBody sample_hathor_utxos),
     requestTransactionByHash := \<lambda>h p. Inr (sample_hathor_tx h)\<rparr>"

definition sample_hathor_transfer :: hathor_transfer_input where
  "sample_hathor_transfer = \<lparr>
     hathor_transfer_input.wallet = sample_wallet,
     hathor_transfer_input.outputs = [\<lparr>
       hathor_transfer_output.address = ''HDest'',
       hathor_transfer_output.amount = 1,
       hathor_transfer_output.token = Some ''HTR''\<rparr>],
     hathor_transfer_input.testnet = None\<rparr>"

text \<open>
  A wallet holding, for the token \<open>tk\<close>, two ordinary outputs of value 5 and two melt
  authorities (marker 129, value 2), discovered in this order, and an output of another
  token.
\<close>

definition sample_melt_utxos :: "utxo list" where
  "sample_melt_utxos = [
     \<lparr>utxo.txHash = ''t1'', utxo.index = 0, utxo.value' = 5, utxo.token = ''tk''\<rparr>,
     \<lparr>utxo.txHash = ''t4'', utxo.index = 0, utxo.value' = 5, utxo.token = ''tk''\<rparr>,
     \<lparr>utxo.txHash = ''t2'', utxo.index = 0, utxo.value' = 2, utxo.token = ''tk''\<rparr>,
     \<lparr>utxo.txHash = ''t5'', utxo.index = 0, utxo.value' = 2, utxo.token = ''tk''\<rparr>,
     \<lparr>utxo.txHash = ''t3'', utxo.index = 0, utxo.value' = 9, utxo.token = ''zz''\<rparr>]"

definition sample_melt_tx :: "string \<Rightarrow> transaction" where
  "sample_melt_tx h = \<lparr>
     transaction.hex = [], transaction.blockhash = [], transaction.vout = [],
     transaction.outputs =
       (if h \<in> set [''t2'', ''t5'']
        then [\<lparr>hathor_output.value' = 2, hathor_output.token_data = 129\<rparr>]
        else [\<lparr>hathor_output.value' = 5, hathor_output.token_data = 1\<rparr>])\<rparr>"

definition sample_melt_controller :: controller where
  "sample_melt_controller = sample_controller\<lparr>
     requestUTXOs := \<lambda>a p. Inr (ArrayBody sample_melt_utxos),
     requestTransactionByHash := \<lambda>h p. Inr (sample_melt_tx h)\<rparr>"

text \<open>The input the selection loop pushes for a discovered output.\<close>

definition mk_input :: "wallet \<Rightarrow> utxo \<Rightarrow> tx_input" where
  "mk_input w u = \<lparr>
            tx_input.txHash = utxo.txHash u,
            tx_input.index = utxo.index u,
            tx_input.privateKey = wallet.privateKey w,
            tx_input.hex = None,
            tx_input.blockhash = None,
            tx_input.value' = None,
            tx_input.token = None\<rparr>"

section \<open>Multi-phase signing constructions (Cardano)\<close>

text \<open>
  The Cardano collaborators: the key, hash and witness primitives of the serialization
  library, the two operation builders of the services module (taken as the \<open>operations\<close>
  they return), and the four construction requests of the remote API, each taken as
  the \<open>data\<close> of its response. The discovery requests of the explicit inputs are issued
  together; \<open>arrivalRank\<close> orders the arrival of their responses, which the network
  decides (responses of equal rank arrive in the order of the requests).
\<close>

record cardano_api =
  from_128_xprv :: "string \<Rightarrow> error + string"
  transaction_hash_from_bytes :: "string \<Rightarrow> error + string"
  make_vkey_witness :: "string \<Rightarrow> string \<Rightarrow> error + string"
  buildOperation :: "utxos_result \<Rightarrow> string \<Rightarrow> string list \<Rightarrow> string option \<Rightarrow> error + string"
  buildOperationFromInputs :: "cardano_utxo list \<Rightarrow> string list \<Rightarrow> error + string"
  requestPreprocess :: "string \<Rightarrow> error + string"
  requestMetadata :: "string \<Rightarrow> error + metadata_data"
  requestPayload :: "string \<Rightarrow> string \<Rightarrow> error + payload_data"
  requestCombine :: "string \<Rightarrow> signature list \<Rightarrow> error + string"
  arrivalRank :: "cardano_input \<Rightarrow> nat"

record cardano_wallet_input =
  wallet :: cardano_wallet
  outputs :: "string list"

record cardano_utxo_input =
  inputs :: "cardano_input list"
  outputs :: "string list"

text \<open>A local computation that may raise; no call is recorded.\<close>

definition io_lift :: "error + 'a \<Rightarrow> 'a io" where
  "io_lift r = ([], r)"

text \<open>\<open>try { ... } catch (error) { handleRequestError(error) }\<close> around a whole body.\<close>

definition catch_request_error :: "controller \<Rightarrow> 'a io \<Rightarrow> 'a io" where
  "catch_request_error c m =
     (fst m, case snd m of Inl e \<Rightarrow> Inl (handleRequestError c e) | Inr x \<Rightarrow> Inr x)"

text \<open>
  \<open>Bip32PrivateKey.from_128_xprv\<close> of the bytes of a hexadecimal string: \<open>match\<close> returns
  \<open>null\<close> on the empty string, and the \<open>map\<close> on it raises.
\<close>

definition parse_xprv :: "cardano_api \<Rightarrow> string \<Rightarrow> error + string" where
  "parse_xprv api hex_key =
     (if hex_key = [] then Inl (TypeError ''Cannot read properties of null (reading map)'')
      else from_128_xprv api hex_key)"

text \<open>\<open>key.slice(128, 192)\<close>: the public part of a private key string.\<close>

definition public_part :: "string \<Rightarrow> string" where
  "public_part hex_key = take 64 (drop 128 hex_key)"

subsection \<open>The key map, a plain object\<close>

text \<open>
  \<open>keyAddressMapper\<close> starts as the object literal \<open>{}\<close>, whose prototype is
  \<open>Object.prototype\<close>. An assignment \<open>keyAddressMapper[k] = entry\<close> creates or replaces the own
  property \<open>k\<close>, except for \<open>k = '__proto__'\<close>, where it makes the entry the prototype of the
  map (the prototype of the entry stays \<open>Object.prototype\<close>).
\<close>

record key_mapper =
  ownEntries :: "string \<rightharpoonup> key_entry"
  prototypeEntry :: "key_entry option"

definition empty_mapper :: key_mapper where
  "empty_mapper = \<lparr>ownEntries = Map.empty, prototypeEntry = None\<rparr>"

definition mapper_set :: "string \<Rightarrow> key_entry \<Rightarrow> key_mapper \<Rightarrow> key_mapper" where
  "mapper_set k entry m =
     (if k = ''__proto__'' then m\<lparr>prototypeEntry := Some entry\<rparr>
      else m\<lparr>ownEntries := (ownEntries m)(k \<mapsto> entry)\<rparr>)"

text \<open>The names of the properties of \<open>Object.prototype\<close> other than \<open>__proto__\<close>.\<close>

definition object_prototype_names :: "string list" where
  "object_prototype_names =
     [''constructor'', ''__defineGetter__'', ''__defineSetter__'', ''hasOwnProperty'',
      ''__lookupGetter__'', ''__lookupSetter__'', ''isPrototypeOf'', ''propertyIsEnumerable'',
      ''toString'', ''valueOf'', ''toLocaleString'']"

text \<open>
  What \<open>keyAddressMapper[k]\<close> evaluates to: an entry (an own property, or the prototype
  itself for \<open>__proto__\<close>), \<open>Inherited\<close> for a value found along the prototype chain that is
  no entry (a member of \<open>Object.prototype\<close>, or the \<open>secretKey\<close> or \<open>publicKey\<close> of an entry that
  was made the prototype), or \<open>Absent\<close> for \<open>undefined\<close>. Reading \<open>publicKey\<close> or \<open>secretKey\<close>
  of an inherited value gives \<open>undefined\<close> and raises nothing; reading them of \<open>undefined\<close>
  raises a \<open>TypeError\<close>.
\<close>

datatype mapper_value = Entry key_entry | Inherited | Absent

definition mapper_get :: "key_mapper \<Rightarrow> string \<Rightarrow> mapper_value" where
  "mapper_get m k =
     (if k = ''__proto__'' then
        (case prototypeEntry m of Some entry \<Rightarrow> Entry entry | None \<Rightarrow> Inherited)
      else
        (case ownEntries m k of
           Some entry \<Rightarrow> Entry entry
         | None \<Rightarrow>
             if k \<in> set object_prototype_names
                \<or> (prototypeEntry m \<noteq> None \<and> k \<in> set [''secretKey'', ''publicKey''])
             then Inherited else Absent))"

text \<open>\<open>keyAddressMapper[address].publicKey\<close>, once the read of the entry has not raised.\<close>

definition public_key_of :: "mapper_value \<Rightarrow> string option" where
  "public_key_of found = (case found of Entry entry \<Rightarrow> Some (key_entry.publicKey entry) | _ \<Rightarrow> None)"

subsection \<open>Signing the payloads\<close>

text \<open>
  The \<open>map\<close> over the signing payloads builds one signature object per payload, field
  by field: the public key of the entry found for the payload's address is read first
  (a \<open>TypeError\<close> when the map gives \<open>undefined\<close>), then the hash of the payload's bytes is
  made, then the witness. In the wallet flow the witness is always made with the
  wallet's key; in the explicit-input flow with the \<open>secretKey\<close> of the entry found (a
  \<open>TypeError\<close> when the value found has none).
\<close>

fun sign_from_wallet ::
  "cardano_api \<Rightarrow> key_mapper \<Rightarrow> string \<Rightarrow> signing_payload list \<Rightarrow> signature list io"
where
  "sign_from_wallet api keyAddressMapper private_key [] = io_return []"
| "sign_from_wallet api keyAddressMapper private_key (p # ps) =
     (if mapper_get keyAddressMapper (signing_payload.account_address p) = Absent then
        io_throw (TypeError ''Cannot read properties of undefined (reading publicKey)'')
      else
        io_bind (io_lift (transaction_hash_from_bytes api (signing_payload.hex_bytes p)))
          (\<lambda>hash.
             io_bind
               (io_call (MakeVkeyWitness hash private_key)
                  (make_vkey_witness api hash private_key))
               (\<lambda>witness.
                  io_bind (sign_from_wallet api keyAddressMapper private_key ps)
                    (\<lambda>rest. io_return
                       (\<lparr>signature.signing_payload = p,
                         signature.public_key_hex_bytes =
                           public_key_of
                             (mapper_get keyAddressMapper (signing_payload.account_address p)),
                         signature.curve_type = ''edwards25519'',
                         signature.signature_type = ''ed25519'',
                         signature.hex_bytes = witness\<rparr> # rest)))))"

fun sign_from_inputs ::
  "cardano_api \<Rightarrow> key_mapper \<Rightarrow> signing_payload list \<Rightarrow> signature list io"
where
  "sign_from_inputs api keyAddressMapper [] = io_return []"
| "sign_from_inputs api keyAddressMapper (p # ps) =
     (if mapper_get keyAddressMapper (signing_payload.account_address p) = Absent then
        io_throw (TypeError ''Cannot read properties of undefined (reading publicKey)'')
      else
        io_bind (io_lift (transaction_hash_from_bytes api (signing_payload.hex_bytes p)))
          (\<lambda>hash.
             (case mapper_get keyAddressMapper (signing_payload.account_address p) of
                Entry entry \<Rightarrow>
                  io_bind
                    (io_call (MakeVkeyWitness hash (key_entry.secretKey entry))
                       (make_vkey_witness api hash (key_entry.secretKey entry)))
                    (\<lambda>witness.
                       io_bind (sign_from_inputs api keyAddressMapper ps)
                         (\<lambda>rest. io_return
                            (\<lparr>signature.signing_payload = p,
                              signature.public_key_hex_bytes = Some (key_entry.publicKey entry),
                              signature.curve_type = ''edwards25519'',
                              signature.signature_type = ''ed25519'',
                              signature.hex_bytes = witness\<rparr> # rest)))
              | _ \<Rightarrow>
                  io_throw
                    (TypeError ''Cannot read properties of undefined (reading to_raw_key)''))))"

subsection \<open>From a wallet\<close>

text \<open>The key map of the wallet flow: the one entry stored under the wallet's address.\<close>

definition wallet_mapper :: "cardano_wallet \<Rightarrow> key_mapper" where
  "wallet_mapper w =
     mapper_set (cardano_wallet.address w)
       \<lparr>key_entry.secretKey = take 128 (cardano_wallet.spendingPrivateKey w),
        key_entry.publicKey = public_part (cardano_wallet.spendingPrivateKey w)\<rparr>
       empty_mapper"

definition createCardanoTransferTransactionFromWallet ::
  "controller \<Rightarrow> cardano_api \<Rightarrow> cardano_wallet_input \<Rightarrow> signed_transaction io"
where
  "createCardanoTransferTransactionFromWallet c api input =
     catch_request_error c
       (let w = cardano_wallet_input.wallet input;
            outputs = cardano_wallet_input.outputs input;
            keyAddressMapper = wallet_mapper w
        in io_bind (io_lift (parse_xprv api (cardano_wallet.spendingPrivateKey w)))
             (\<lambda>private_key.
        io_bind (getUTXOs c (cardano_wallet.address w) CARDANO)
             (\<lambda>utxo.
        io_bind (io_lift (buildOperation api utxo (cardano_wallet.address w) outputs None))
             (\<lambda>feeless_operations.
        io_bind (io_call (Preprocess feeless_operations)
                   (requestPreprocess api feeless_operations))
             (\<lambda>options.
        io_bind (io_call (GetMetadata options) (requestMetadata api options))
             (\<lambda>metadata.
        io_bind
          (case metadata_data.suggested_fee metadata of
             [] \<Rightarrow> io_throw (TypeError ''Cannot read properties of undefined (reading value)'')
           | suggested # others \<Rightarrow>
               io_lift (buildOperation api utxo (cardano_wallet.address w) outputs
                          (Some suggested)))
             (\<lambda>operations.
        io_bind (io_call (GetPayload operations (metadata_data.metadata metadata))
                   (requestPayload api operations (metadata_data.metadata metadata)))
             (\<lambda>payload.
        io_bind (sign_from_wallet api keyAddressMapper private_key
                   (payload_data.payloads payload))
             (\<lambda>signatures.
        io_bind (io_call (CombineSignatures (payload_data.unsigned_transaction payload) signatures)
                   (requestCombine api (payload_data.unsigned_transaction payload) signatures))
             (\<lambda>signedTx.
                io_return \<lparr>
                  signed_transaction.signedTx = signedTx,
                  signed_transaction.protocol = CARDANO,
                  signed_transaction.type' = TRANSFER\<rparr>))))))))))"

subsection \<open>From explicit inputs\<close>

text \<open>\<open>Number.prototype.toString\<close> of an integer: its decimal digits.\<close>

function nat_to_string :: "nat \<Rightarrow> string" where
  "nat_to_string n =
     (if n < 10 then [''0123456789'' ! n]
      else nat_to_string (n div 10) @ [''0123456789'' ! (n mod 10)])"
  by pat_completeness auto
termination
  by (relation "measure id") auto

definition int_to_string :: "int \<Rightarrow> string" where
  "int_to_string i = (if i < 0 then CHR ''-'' # nat_to_string (nat (- i)) else nat_to_string (nat i))"

text \<open>
  \<open>Promise.all(inputs.map(async (i) => ...))\<close>. The \<open>map\<close> calls the body on each input in
  turn, and each body runs up to its \<open>await\<close> before the next one starts: it parses the
  key of the input, stores the entry under the input's address, and issues the discovery
  request of that address. A body whose key does not parse raises there: its promise is
  rejected, nothing is stored and no request is issued for it, and the \<open>map\<close> goes on.
  \<open>start_inputs\<close> gives the key map after all the bodies have started, the inputs whose
  request was issued, and the first rejection, if any.
\<close>

fun start_inputs ::
  "cardano_api \<Rightarrow> cardano_input list \<Rightarrow> key_mapper
    \<Rightarrow> key_mapper \<times> cardano_input list \<times> error option"
where
  "start_inputs api [] m = (m, [], None)"
| "start_inputs api (i # others) m =
     (case parse_xprv api (cardano_input.privateKey i) of
        Inl e \<Rightarrow>
          (case start_inputs api others m of (m', started, err) \<Rightarrow> (m', started, Some e))
      | Inr secret \<Rightarrow>
          (case start_inputs api others
                  (mapper_set (cardano_input.address i)
                     \<lparr>key_entry.secretKey = secret,
                      key_entry.publicKey = public_part (cardano_input.privateKey i)\<rparr> m) of
             (m', started, err) \<Rightarrow> (m', i # started, err)))"

text \<open>
  The rest of a body, once the discovery response of its input has arrived: the outputs
  that match the input are pushed to the input list (\<open>utxo.map\<close> raises on \<open>false\<close>).
\<close>

definition matching_outputs :: "controller \<Rightarrow> cardano_input \<Rightarrow> error + cardano_utxo list" where
  "matching_outputs c i =
     (case snd (getUTXOs c (cardano_input.address i) CARDANO) of
        Inl e \<Rightarrow> Inl e
      | Inr JsFalse \<Rightarrow> Inl (TypeError ''utxo.map is not a function'')
      | Inr (UtxoArray us) \<Rightarrow>
          Inr (map (\<lambda>u. \<lparr>cardano_utxo.txHash = utxo.txHash u,
                         cardano_utxo.index = utxo.index u,
                         cardano_utxo.value' = utxo.value' u,
                         cardano_utxo.token = utxo.token u,
                         cardano_utxo.address = cardano_input.address i\<rparr>)
                 (filter (\<lambda>u. utxo.txHash u = cardano_input.txHash i
                              \<and> int_to_string (utxo.index u) = cardano_input.index i)
                    us)))"

text \<open>The bodies finish in the order of arrival; the first failure rejects the whole.\<close>

fun join_all :: "(error + 'a list) list \<Rightarrow> error + 'a list" where
  "join_all [] = Inr []"
| "join_all (r # rs) =
     (case r of
        Inl e \<Rightarrow> Inl e
      | Inr xs \<Rightarrow> (case join_all rs of Inl e \<Rightarrow> Inl e | Inr ys \<Rightarrow> Inr (xs @ ys)))"

text \<open>
  The whole of the \<open>Promise.all\<close>: every request that was issued is in the record of
  calls, in the order of the inputs, whatever fails. A rejection raised while the bodies
  start comes before any response; otherwise the responses are taken in their order of
  arrival.
\<close>

definition collect_inputs ::
  "controller \<Rightarrow> cardano_api \<Rightarrow> cardano_input list \<Rightarrow> (key_mapper \<times> cardano_utxo list) io"
where
  "collect_inputs c api ins =
     (case start_inputs api ins empty_mapper of
        (keyAddressMapper, started, err) \<Rightarrow>
          (concat (map (\<lambda>i. fst (getUTXOs c (cardano_input.address i) CARDANO)) started),
           case err of
             Some e \<Rightarrow> Inl e
           | None \<Rightarrow>
               (case join_all (map (matching_outputs c) (sort_key (arrivalRank api) started)) of
                  Inl e \<Rightarrow> Inl e
                | Inr inputList \<Rightarrow> Inr (keyAddressMapper, inputList))))"

definition createCardanoTransferTransactionFromUTXO ::
  "controller \<Rightarrow> cardano_api \<Rightarrow> cardano_utxo_input \<Rightarrow> signed_transaction io"
where
  "createCardanoTransferTransactionFromUTXO c api input =
     catch_request_error c
       (let outputs = cardano_utxo_input.outputs input;
            inputs = cardano_utxo_input.inputs input
        in io_bind (collect_inputs c api inputs)
             (\<lambda>(keyAddressMapper, inputList).
        io_bind
          (if length inputList \<noteq> length inputs
           then io_throw (JsError ''One or more inputs are invalid'')
           else io_lift (buildOperationFromInputs api inputList outputs))
             (\<lambda>operations.
        io_bind (io_call (Preprocess operations) (requestPreprocess api operations))
             (\<lambda>options.
        io_bind (io_call (GetMetadata options) (requestMetadata api options))
             (\<lambda>metadata.
        io_bind (io_call (GetPayload operations (metadata_data.metadata metadata))
                   (requestPayload api operations (metadata_data.metadata metadata)))
             (\<lambda>payload.
        io_bind (sign_from_inputs api keyAddressMapper (payload_data.payloads payload))
             (\<lambda>signatures.
        io_bind (io_call (CombineSignatures (payload_data.unsigned_transaction payload) signatures)
                   (requestCombine api (payload_data.unsigned_transaction payload) signatures))
             (\<lambda>signedTx.
                io_return \<lparr>
                  signed_transaction.signedTx = signedTx,
                  signed_transaction.protocol = CARDANO,
                  signed_transaction.type' = TRANSFER\<rparr>))))))))"

section \<open>A remote API that answers the discovery with no array\<close>



section \<open>Input validation of the contract-deploy intent\<close>

text \<open>Modelled from the spec: \<open>validateSmartContractDeployTransactionParams\<close> of the
  validations module, which is not under the sources. The spec declares smart-contract
  deployment for a closed set of protocols only (Celo, Ethereum, BSC and Avalanche
  C-Chain, those of the controller's dispatch) and has an intent of any other protocol
  fail before any network call; the exception is the one the dispatch raises. The checks
  of the other fields of the intent (malformed or missing fields) are the parameter
  \<open>shape_checks\<close>.\<close>

definition validateSmartContractDeployTransactionParams ::
  "(contract_input \<Rightarrow> error option) \<Rightarrow> contract_input \<Rightarrow> error option"
where
  "validateSmartContractDeployTransactionParams shape_checks input =
     (case shape_checks input of
        Some e \<Rightarrow> Some e
      | None \<Rightarrow>
          if contract_input.protocol input \<in> set [CELO, ETHEREUM, BSC, AVAXCCHAIN] then None
          else Some (GenericException ''Invalid protocol'' (Some ''InvalidTypeException'')))"

section \<open>The unsigned Celo transfer\<close>

text \<open>The fields of an unsigned account-chain transaction that tell a contract call from
  a plain value transfer.\<close>

record unsigned_transaction =
  type' :: transaction_type
  to :: "string option"
  method' :: "string option"
  params :: "string list option"
  value' :: "string option"

text \<open>Modelled from the spec: the unsigned transaction that \<open>buildCeloTransferTransaction\<close>
  (Celo services module, not under the sources) assembles from its options before it
  signs. By the decision table of the spec, a transfer of the native asset with an
  attached message is a contract call against the well-known contract (the contract
  address the builder is given) rather than a plain value transfer, a transfer of the
  native asset with no message is a plain value transfer, and a transfer of any other
  token is a call of the token contract. Method names and parameters are those the
  controller quotes the fee for.\<close>

definition celo_unsigned_transaction :: "controller \<Rightarrow> transfer_options \<Rightarrow> unsigned_transaction" where
  "celo_unsigned_transaction c opts =
     (if transfer_options.tokenSymbol opts = ''CELO'' \<and> \<not> truthy_str (transfer_options.memo opts)
      then \<lparr>
        unsigned_transaction.type' = TRANSFER,
        unsigned_transaction.to = Some (transfer_options.destination opts),
        unsigned_transaction.method' = None,
        unsigned_transaction.params = None,
        unsigned_transaction.value' = Some (transfer_options.amount opts)\<rparr>
      else \<lparr>
        unsigned_transaction.type' = CALL_CONTRACT_METHOD,
        unsigned_transaction.to = transfer_options.contractAddress opts,
        unsigned_transaction.method' =
          Some (if truthy_str (transfer_options.memo opts) then ''transferWithComment''
                else ''transfer''),
        unsigned_transaction.params =
          Some ([transfer_options.destination opts, toWei c (transfer_options.amount opts)]
                @ (case keep_truthy (transfer_options.memo opts) of
                     Some m \<Rightarrow> [m]
                   | None \<Rightarrow> [])),
        unsigned_transaction.value' = None\<rparr>)"

section \<open>Verified properties\<close>

subsection \<open>Unspent-output discovery\<close>

lemma getUTXOs_calls: "fst (getUTXOs c addr proto) = [GetUTXOs addr proto]"
  by (simp add: getUTXOs_def io_call_def)

subsection \<open>Calls and results of the basic steps\<close>

lemma io_bind_fst:
  "fst (io_bind m k) = (case snd m of Inl e \<Rightarrow> fst m | Inr x \<Rightarrow> fst m @ fst (k x))"
  by (simp add: io_bind_def split: sum.splits)

lemma io_bind_snd:
  "snd (io_bind m k) = (case snd m of Inl e \<Rightarrow> Inl e | Inr x \<Rightarrow> snd (k x))"
  by (simp add: io_bind_def split: sum.splits)

lemma getFeeInfo_fst:
  "fst (getFeeInfo c w ov p a) =
     [GetWalletInfo (wallet.address w) p,
      GetFee (fee_request_data (a\<lparr>fee_data.from' := Some (wallet.address w)\<rparr>)) p]"
  by (simp add: getFeeInfo_def io_bind_def promise_all2_def getWalletInfo_def getFee_def
      io_call_def io_return_def Let_def split: sum.splits prod.splits)

lemma getFeeInfo_snd:
  "snd (getFeeInfo c w ov p a) =
    (case requestWalletInfo c (wallet.address w) p of
       Inr info \<Rightarrow>
         (case requestFee c (fee_request_data (a\<lparr>fee_data.from' := Some (wallet.address w)\<rparr>)) p of
            Inr q \<Rightarrow> Inr (info, merge_fee ov q)
          | Inl e \<Rightarrow> Inl (handleRequestError c e))
     | Inl e \<Rightarrow>
         (case requestFee c (fee_request_data (a\<lparr>fee_data.from' := Some (wallet.address w)\<rparr>)) p of
            Inr q \<Rightarrow> Inl e
          | Inl e' \<Rightarrow> Inl (if feeRejectsFirst c then handleRequestError c e' else e)))"
  by (simp add: getFeeInfo_def io_bind_def promise_all2_def getWalletInfo_def getFee_def
      io_call_def io_return_def Let_def split: sum.splits prod.splits)

lemma built_fees_append: "built_fees (xs @ ys) = built_fees xs @ built_fees ys"
  by (simp add: built_fees_def List.map_filter_def)
lemma quotes_append: "quotes c (xs @ ys) = quotes c xs @ quotes c ys"
  by (simp add: quotes_def List.map_filter_def)

lemma quotes_Nil: "quotes c [] = []"
  by (simp add: quotes_def map_filter_simps)

lemma quotes_Cons:
  "quotes c (ev # tr) = (case quote_of c ev of None \<Rightarrow> quotes c tr | Some q \<Rightarrow> q # quotes c tr)"
  by (simp add: quotes_def map_filter_simps split: option.splits)

lemma local_build_fst: "fst (local_build c ev) = [ev]"
  by (simp add: local_build_def io_call_def)

lemma io_throw_fst: "fst (io_throw e) = []"
  by (simp add: io_throw_def)

lemma io_return_fst: "fst (io_return x) = []"
  by (simp add: io_return_def)

lemma built_fees_Nil: "built_fees [] = []"
  by (simp add: built_fees_def map_filter_simps)

lemma built_fees_Cons:
  "built_fees (ev # tr) = (case built_fee ev of None \<Rightarrow> built_fees tr | Some f \<Rightarrow> f # built_fees tr)"
  by (simp add: built_fees_def map_filter_simps split: option.splits)

lemmas trace_simps = io_bind_fst local_build_fst io_throw_fst io_return_fst
  built_fees_Nil built_fees_Cons

lemmas build_simps = trace_simps quotes_append quotes_Cons quotes_Nil built_fees_append

lemmas io_simps = io_bind_def io_call_def io_return_def io_throw_def promise_all2_def
  local_build_def getWalletInfo_def getFee_def getFeeInfo_def fee_request_data_def
  keep_truthy_def truthy_str_def resolve_testnet_def merge_fee_def no_fee_data_def Let_def

lemmas sample_simps = sample_controller_def sample_info_def sample_quote_def
  sample_wallet_def sample_transfer_def sample_contract_def sample_eth_transfer_def
  full_override_def accept_def

subsection \<open>Fee override\<close>

lemma fee_info_then_build:
  assumes k: "\<And>info nf. built_fees (fst (k (info, nf))) = [nf] \<and> quotes c (fst (k (info, nf))) = []"
  assumes info: "\<And>a p. \<exists>i. requestWalletInfo c a p = Inr i"
  assumes fee: "\<And>d p. \<exists>q. requestFee c d p = Inr q"
  shows "\<exists>q. quotes c (fst (io_bind (getFeeInfo c w ov p a) k)) = [q]
           \<and> built_fees (fst (io_bind (getFeeInfo c w ov p a) k)) = [merge_fee ov q]"
proof -
  let ?d = "fee_request_data (a\<lparr>fee_data.from' := Some (wallet.address w)\<rparr>)"
  from info obtain i where i: "requestWalletInfo c (wallet.address w) p = Inr i" by blast
  from fee obtain q where q: "requestFee c ?d p = Inr q" by blast
  have s: "snd (getFeeInfo c w ov p a) = Inr (i, merge_fee ov q)"
    by (simp add: getFeeInfo_snd i q)
  have "quotes c (fst (io_bind (getFeeInfo c w ov p a) k)) = [q]"
    using k [of i "merge_fee ov q"]
    by (simp add: io_bind_fst s getFeeInfo_fst quotes_append quotes_Cons quotes_Nil q)
  moreover have "built_fees (fst (io_bind (getFeeInfo c w ov p a) k)) = [merge_fee ov q]"
    using k [of i "merge_fee ov q"]
    by (simp add: io_bind_fst s getFeeInfo_fst built_fees_append built_fees_Cons built_fees_Nil)
  ultimately show ?thesis by blast
qed

lemma celo_fee_shape:
  assumes "v ti = None"
  shows "\<exists>a k. createCeloTransferTransaction c v ti =
            io_bind (getFeeInfo c (transfer_input.wallet ti) (transfer_input.fee ti) CELO a) k
          \<and> (\<forall>info nf. built_fees (fst (k (info, nf))) = [nf]
                \<and> quotes c (fst (k (info, nf))) = [])"
  unfolding createCeloTransferTransaction_def assms option.case Let_def
  apply (simp only: split: prod.splits)
  apply (intro allI impI exI conjI)
   apply (rule refl)
   apply (simp_all add: build_simps split: sum.splits)
  done

lemma ethereum_fee_shape:
  assumes "v ti = None"
  shows "\<exists>a k. createEthereumTransferTransaction c v ti =
            io_bind (getFeeInfo c (transfer_input.wallet ti) (transfer_input.fee ti) ETHEREUM a) k
          \<and> (\<forall>info nf. built_fees (fst (k (info, nf))) = [nf]
                \<and> quotes c (fst (k (info, nf))) = [])"
  unfolding createEthereumTransferTransaction_def assms option.case Let_def
  apply (intro allI impI exI conjI)
   apply (rule refl)
   apply (simp_all add: build_simps split: sum.splits)
  done

lemma bsc_fee_shape:
  assumes "v ti = None"
  shows "\<exists>a k. createBscTransferTransaction c v ti =
            io_bind (getFeeInfo c (transfer_input.wallet ti) (transfer_input.fee ti) BSC a) k
          \<and> (\<forall>info nf. built_fees (fst (k (info, nf))) = [nf]
                \<and> quotes c (fst (k (info, nf))) = [])"
  unfolding createBscTransferTransaction_def assms option.case Let_def
  apply (intro allI impI exI conjI)
   apply (rule refl)
   apply (simp_all add: build_simps split: sum.splits)
  done

lemma avax_fee_shape:
  assumes "v ti = None"
  shows "\<exists>a k. createAvaxCChainTransferTransaction c v ti =
            io_bind (getFeeInfo c (transfer_input.wallet ti) (transfer_input.fee ti) AVAXCCHAIN a) k
          \<and> (\<forall>info nf. built_fees (fst (k (info, nf))) = [nf]
                \<and> quotes c (fst (k (info, nf))) = [])"
  unfolding createAvaxCChainTransferTransaction_def assms option.case Let_def
  apply (intro allI impI exI conjI)
   apply (rule refl)
   apply (simp_all add: build_simps split: sum.splits)
  done

lemma call_fee_shape:
  assumes "v ci = None"
  assumes "contract_input.protocol ci \<in> set [CELO, ETHEREUM, BSC, AVAXCCHAIN]"
  shows "\<exists>a k. createSmartContractTransaction c v ci =
            io_bind (getFeeInfo c (contract_input.wallet ci) (contract_input.fee ci)
              (contract_input.protocol ci) a) k
          \<and> (\<forall>info nf. built_fees (fst (k (info, nf))) = [nf]
                \<and> quotes c (fst (k (info, nf))) = [])"
  unfolding createSmartContractTransaction_def assms(1) option.case Let_def
  apply (intro allI impI exI conjI)
   apply (rule refl)
  using assms(2)
   apply (auto simp add: build_simps split: sum.splits)
  done

lemma deploy_fee_shape:
  assumes "v ci = None"
  assumes "contract_input.protocol ci \<in> set [CELO, ETHEREUM, BSC, AVAXCCHAIN]"
  shows "\<exists>a k. createSmartContractDeployTransaction c v ci =
            io_bind (getFeeInfo c (contract_input.wallet ci) (contract_input.fee ci)
              (contract_input.protocol ci) a) k
          \<and> (\<forall>info nf. built_fees (fst (k (info, nf))) = [nf]
                \<and> quotes c (fst (k (info, nf))) = [])"
  unfolding createSmartContractDeployTransaction_def assms(1) option.case Let_def
  apply (intro allI impI exI conjI)
   apply (rule refl)
  using assms(2)
   apply (auto simp add: build_simps split: sum.splits)
  done

lemma token_deploy_fee_shape:
  assumes "v ci = None"
  assumes "contract_input.protocol ci \<in> set [CELO, ETHEREUM, BSC, AVAXCCHAIN]"
  shows "\<exists>a k. createTokenDeployTransaction c v ci =
            io_bind (getFeeInfo c (contract_input.wallet ci) (contract_input.fee ci)
              (contract_input.protocol ci) a) k
          \<and> (\<forall>info nf. built_fees (fst (k (info, nf))) = [nf]
                \<and> quotes c (fst (k (info, nf))) = [])"
  unfolding createTokenDeployTransaction_def assms(1) option.case Let_def
  apply (intro allI impI exI conjI)
   apply (rule refl)
  using assms(2)
   apply (auto simp add: build_simps split: sum.splits)
  done

lemma fee_from_shape:
  assumes shape: "\<exists>a k. r = io_bind (getFeeInfo c w ov p a) k
          \<and> (\<forall>info nf. built_fees (fst (k (info, nf))) = [nf]
                \<and> quotes c (fst (k (info, nf))) = [])"
  assumes info: "\<And>a p. \<exists>i. requestWalletInfo c a p = Inr i"
  assumes fee: "\<And>d p. \<exists>q. requestFee c d p = Inr q"
  shows "\<exists>q. quotes c (fst r) = [q] \<and> built_fees (fst r) = [merge_fee ov q]"
proof -
  from shape obtain a k where
    eq: "r = io_bind (getFeeInfo c w ov p a) k"
    and k: "\<And>info nf. built_fees (fst (k (info, nf))) = [nf] \<and> quotes c (fst (k (info, nf))) = []"
    by blast
  show ?thesis
    unfolding eq by (rule fee_info_then_build [OF k info fee])
qed

lemma account_chain_fee_is_merged:
  assumes r: "(ov, r) \<in> set (account_chain_constructions c vt vc ti ci)"
  assumes vt: "vt ti = None" and vc: "vc ci = None"
  assumes sup: "contract_input.protocol ci \<in> set [CELO, ETHEREUM, BSC, AVAXCCHAIN]"
  assumes info: "\<And>a p. \<exists>i. requestWalletInfo c a p = Inr i"
  assumes fee: "\<And>d p. \<exists>q. requestFee c d p = Inr q"
  shows "\<exists>q. quotes c (fst r) = [q] \<and> built_fees (fst r) = [merge_fee ov q]"
proof -
  from r consider
      "ov = transfer_input.fee ti" "r = createCeloTransferTransaction c vt ti"
    | "ov = transfer_input.fee ti" "r = createEthereumTransferTransaction c vt ti"
    | "ov = transfer_input.fee ti" "r = createBscTransferTransaction c vt ti"
    | "ov = transfer_input.fee ti" "r = createAvaxCChainTransferTransaction c vt ti"
    | "ov = contract_input.fee ci" "r = createSmartContractTransaction c vc ci"
    | "ov = contract_input.fee ci" "r = createSmartContractDeployTransaction c vc ci"
    | "ov = contract_input.fee ci" "r = createTokenDeployTransaction c vc ci"
    unfolding account_chain_constructions_def by auto
  then show ?thesis
  proof cases
    case 1
    show ?thesis unfolding 1
      by (rule fee_from_shape [OF celo_fee_shape [where v=vt and ti=ti and c=c, OF vt] info fee])
  next
    case 2
    show ?thesis unfolding 2
      by (rule fee_from_shape [OF ethereum_fee_shape [where v=vt and ti=ti and c=c, OF vt] info fee])
  next
    case 3
    show ?thesis unfolding 3
      by (rule fee_from_shape [OF bsc_fee_shape [where v=vt and ti=ti and c=c, OF vt] info fee])
  next
    case 4
    show ?thesis unfolding 4
      by (rule fee_from_shape [OF avax_fee_shape [where v=vt and ti=ti and c=c, OF vt] info fee])
  next
    case 5
    show ?thesis unfolding 5
      by (rule fee_from_shape [OF call_fee_shape [where v=vc and ci=ci and c=c, OF vc sup] info fee])
  next
    case 6
    show ?thesis unfolding 6
      by (rule fee_from_shape [OF deploy_fee_shape [where v=vc and ci=ci and c=c, OF vc sup] info fee])
  next
    case 7
    show ?thesis unfolding 7
      by (rule fee_from_shape [OF token_deploy_fee_shape [where v=vc and ci=ci and c=c, OF vc sup] info fee])
  qed
qed

lemma merge_fee_fields:
  "gas (merge_fee ov q) =
     (case ov of Some f \<Rightarrow> if truthy (gas f) then gas f else gas q | None \<Rightarrow> gas q)"
  "gasPrice (merge_fee ov q) =
     (case ov of Some f \<Rightarrow> if truthy (gasPrice f) then gasPrice f else gasPrice q
      | None \<Rightarrow> gasPrice q)"
  "chainId (merge_fee ov q) = chainId q"
  "estimateValue (merge_fee ov q) = estimateValue q"
  by (simp_all add: merge_fee_def Let_def split: option.splits)

text \<open>
  C1. In each construction that goes through \<open>_getFeeInfo\<close> (the Celo, Ethereum, BSC and
  Avalanche transfers, the contract call, the contract deploy and the token deploy), for
  an intent that passes validation, a supported protocol and a remote API that answers
  the wallet-info and the fee request: exactly one fee request is answered, the builder
  is called exactly once, and the fee it is given has, for \<open>gas\<close> and for \<open>gasPrice\<close>, the
  value of the caller's override when the override has that field, and the value of the
  quotation when the override has not (or when there is no override); \<open>chainId\<close> and
  \<open>estimateValue\<close> are always the quoted ones, so an override is never taken wholesale.
  The input validation is a parameter; it is taken to reject an override one of whose
  fields is present with a falsy value (\<open>0\<close>, \<open>''\<close>, \<open>null\<close>), a value \<open>_getFeeInfo\<close> would
  not apply.
\<close>

theorem fee_override_replaces_present_fields:
  assumes r: "(ov, r) \<in> set (account_chain_constructions c vt vc ti ci)"
  assumes vt: "vt ti = None" and vc: "vc ci = None"
  assumes vt_fee: "\<And>i. vt i = None \<Longrightarrow> admitted_override (transfer_input.fee i)"
  assumes vc_fee: "\<And>i. vc i = None \<Longrightarrow> admitted_override (contract_input.fee i)"
  assumes sup: "contract_input.protocol ci \<in> set [CELO, ETHEREUM, BSC, AVAXCCHAIN]"
  assumes info: "\<And>a p. \<exists>i. requestWalletInfo c a p = Inr i"
  assumes fee: "\<And>d p. \<exists>q. requestFee c d p = Inr q"
  shows "\<exists>q f. quotes c (fst r) = [q] \<and> built_fees (fst r) = [f]
       \<and> gas f = (case ov of Some x \<Rightarrow> if present (gas x) then gas x else gas q
                  | None \<Rightarrow> gas q)
       \<and> gasPrice f = (case ov of Some x \<Rightarrow> if present (gasPrice x) then gasPrice x
                         else gasPrice q | None \<Rightarrow> gasPrice q)
       \<and> chainId f = chainId q \<and> estimateValue f = estimateValue q"
proof -
  from account_chain_fee_is_merged [OF r vt vc sup info fee] obtain q where
    q: "quotes c (fst r) = [q]" "built_fees (fst r) = [merge_fee ov q]" by blast
  from r have "ov = transfer_input.fee ti \<or> ov = contract_input.fee ci"
    unfolding account_chain_constructions_def by auto
  with vt_fee [OF vt] vc_fee [OF vc] have ok: "admitted_override ov" by auto
  have "gas (merge_fee ov q) =
          (case ov of Some x \<Rightarrow> if present (gas x) then gas x else gas q | None \<Rightarrow> gas q)"
    "gasPrice (merge_fee ov q) =
          (case ov of Some x \<Rightarrow> if present (gasPrice x) then gasPrice x else gasPrice q
           | None \<Rightarrow> gasPrice q)"
    using ok
    by (auto simp add: merge_fee_fields admitted_override_def present_def split: option.splits)
  with q show ?thesis by (simp add: merge_fee_fields)
qed

theorem fee_override_replaces_present_fields_witness:
  "built_fees (fst (createEthereumTransferTransaction sample_controller fee_checking_transfer
       (sample_eth_transfer\<lparr>transfer_input.fee := Some full_override\<rparr>)))
     = [\<lparr>gas = JsNumber 50000, gasPrice = JsString ''5'', chainId = JsNumber 44787,
         estimateValue = JsString ''12''\<rparr>]
   \<and> quotes sample_controller
       (fst (createEthereumTransferTransaction sample_controller fee_checking_transfer
          (sample_eth_transfer\<lparr>transfer_input.fee := Some full_override\<rparr>)))
     = [sample_quote]
   \<and> built_fees (fst (createSmartContractDeployTransaction sample_controller
       fee_checking_contract sample_contract)) = [sample_quote]"
proof -
  let ?ti = "sample_eth_transfer\<lparr>transfer_input.fee := Some full_override\<rparr>"
  let ?vt = fee_checking_transfer
  let ?vc = fee_checking_contract
  have m1: "(Some full_override, createEthereumTransferTransaction sample_controller ?vt ?ti)
     \<in> set (account_chain_constructions sample_controller ?vt ?vc ?ti sample_contract)"
    by (simp add: account_chain_constructions_def)
  have m2: "(None, createSmartContractDeployTransaction sample_controller ?vc sample_contract)
     \<in> set (account_chain_constructions sample_controller ?vt ?vc ?ti sample_contract)"
    by (simp add: account_chain_constructions_def sample_contract_def)
  have a: "?vt ?ti = None" "?vc sample_contract = None"
    by (simp_all add: fee_checking_transfer_def fee_checking_contract_def admitted_override_def
        full_override_def present_def sample_contract_def)
  have vt_fee: "\<And>i. ?vt i = None \<Longrightarrow> admitted_override (transfer_input.fee i)"
    by (simp add: fee_checking_transfer_def split: if_splits)
  have vc_fee: "\<And>i. ?vc i = None \<Longrightarrow> admitted_override (contract_input.fee i)"
    by (simp add: fee_checking_contract_def split: if_splits)
  have sup: "contract_input.protocol sample_contract \<in> set [CELO, ETHEREUM, BSC, AVAXCCHAIN]"
    by (simp add: sample_contract_def)
  have info: "\<And>a p. \<exists>i. requestWalletInfo sample_controller a p = Inr i"
    by (simp add: sample_controller_def)
  have fee: "\<And>d p. \<exists>q. requestFee sample_controller d p = Inr q"
    by (simp add: sample_controller_def)
  have q: "\<And>d p. requestFee sample_controller d p = Inr sample_quote"
    by (simp add: sample_controller_def)
  have qs: "\<And>tr q. quotes sample_controller tr = [q] \<Longrightarrow> q = sample_quote"
  proof -
    fix tr q assume "quotes sample_controller tr = [q]"
    then have "q \<in> set (quotes sample_controller tr)" by simp
    then obtain ev where "quote_of sample_controller ev = Some q"
      by (auto simp add: quotes_def List.map_filter_def)
    then show "q = sample_quote"
      by (cases ev) (auto simp add: q)
  qed
  from fee_override_replaces_present_fields [OF m1 a vt_fee vc_fee sup info fee]
  obtain q1 f1 where 1:
    "quotes sample_controller (fst (createEthereumTransferTransaction sample_controller ?vt ?ti)) = [q1]"
    "built_fees (fst (createEthereumTransferTransaction sample_controller ?vt ?ti)) = [f1]"
    "gas f1 = JsNumber 50000" "gasPrice f1 = JsString ''5''"
    "chainId f1 = chainId q1" "estimateValue f1 = estimateValue q1"
    by (auto simp add: full_override_def present_def)
  from fee_override_replaces_present_fields [OF m2 a vt_fee vc_fee sup info fee]
  obtain q2 f2 where 2:
    "quotes sample_controller (fst (createSmartContractDeployTransaction sample_controller ?vc sample_contract)) = [q2]"
    "built_fees (fst (createSmartContractDeployTransaction sample_controller ?vc sample_contract)) = [f2]"
    "gas f2 = gas q2" "gasPrice f2 = gasPrice q2"
    "chainId f2 = chainId q2" "estimateValue f2 = estimateValue q2"
    by auto
  from qs [OF 1(1)] qs [OF 2(1)] have e: "q1 = sample_quote" "q2 = sample_quote" .
  have "f1 = \<lparr>gas = JsNumber 50000, gasPrice = JsString ''5'', chainId = JsNumber 44787,
         estimateValue = JsString ''12''\<rparr>"
    using 1 e by (cases f1) (simp add: sample_quote_def)
  moreover have "f2 = sample_quote"
    using 2 e by (cases f2) (simp add: sample_quote_def)
  ultimately show ?thesis using 1 2 e by simp
qed

subsection \<open>Protocol dispatch of the contract deploy\<close>

text \<open>
  C3. With the input validation of the deploy intent as the spec has it, a contract-deploy
  intent whose protocol is none of Celo, Ethereum, BSC and Avalanche C-Chain fails before
  any call is made: no wallet-info request, no fee request, no builder. When the other
  fields of the intent are well-formed, the exception is \<open>Invalid protocol\<close>
  (\<open>GenericException\<close> of type \<open>InvalidTypeException\<close>), the one the dispatch of the
  controller raises for such a protocol.
\<close>

theorem deploy_unsupported_protocol_fails_fast:
  assumes "contract_input.protocol ci \<notin> set [CELO, ETHEREUM, BSC, AVAXCCHAIN]"
  shows "fst (createSmartContractDeployTransaction c
                (validateSmartContractDeployTransactionParams shape_checks) ci) = []
       \<and> isl (snd (createSmartContractDeployTransaction c
                (validateSmartContractDeployTransactionParams shape_checks) ci))
       \<and> (shape_checks ci = None \<longrightarrow>
            createSmartContractDeployTransaction c
                (validateSmartContractDeployTransactionParams shape_checks) ci =
              ([], Inl (GenericException ''Invalid protocol'' (Some ''InvalidTypeException''))))"
  using assms
  by (cases "shape_checks ci")
     (simp_all add: createSmartContractDeployTransaction_def
        validateSmartContractDeployTransactionParams_def io_throw_def)

theorem deploy_unsupported_protocol_fails_fast_witness:
  "contract_input.protocol (sample_contract\<lparr>contract_input.protocol := SOLANA\<rparr>)
     \<notin> set [CELO, ETHEREUM, BSC, AVAXCCHAIN]
   \<and> createSmartContractDeployTransaction sample_controller
        (validateSmartContractDeployTransactionParams accept)
        (sample_contract\<lparr>contract_input.protocol := SOLANA\<rparr>) =
       ([], Inl (GenericException ''Invalid protocol'' (Some ''InvalidTypeException'')))
   \<and> validateSmartContractDeployTransactionParams accept sample_contract = None
   \<and> map is_network_call
        (fst (createSmartContractDeployTransaction sample_controller
           (validateSmartContractDeployTransactionParams accept) sample_contract))
       = [True, True, False]"
proof -
  have p: "contract_input.protocol (sample_contract\<lparr>contract_input.protocol := SOLANA\<rparr>)
     \<notin> set [CELO, ETHEREUM, BSC, AVAXCCHAIN]" by simp
  have v: "validateSmartContractDeployTransactionParams accept sample_contract = None"
    by (simp add: validateSmartContractDeployTransactionParams_def accept_def sample_contract_def)
  have s: "map is_network_call
        (fst (createSmartContractDeployTransaction sample_controller
           (validateSmartContractDeployTransactionParams accept) sample_contract))
       = [True, True, False]"
    by (simp add: createSmartContractDeployTransaction_def
        validateSmartContractDeployTransactionParams_def io_simps sample_simps)
  from deploy_unsupported_protocol_fails_fast
    [of "sample_contract\<lparr>contract_input.protocol := SOLANA\<rparr>" sample_controller accept, OF p]
  show ?thesis using p v s by (simp add: accept_def)
qed

subsection \<open>Native Celo transfer\<close>

lemma celo_native_shape:
  assumes v: "v ti = None"
  assumes sym: "transfer_input.tokenSymbol ti = ''CELO''"
  shows "\<exists>a k. createCeloTransferTransaction c v ti =
            io_bind (getFeeInfo c (transfer_input.wallet ti) (transfer_input.fee ti) CELO a) k
          \<and> celo_request_ok c ti
               (fee_request_data (a\<lparr>fee_data.from' := Some (wallet.address (transfer_input.wallet ti))\<rparr>))
          \<and> (\<forall>x. \<exists>ev. fst (k x) = [ev] \<and> celo_build_ok c ti ev)
          \<and> (\<forall>x envelope. snd (k x) = Inr envelope \<longrightarrow>
                signed_transaction.type' envelope = TRANSFER
                \<and> signed_transaction.protocol envelope = CELO)"
proof (cases "keep_truthy (transfer_input.memo ti)")
  case None
  show ?thesis
    unfolding createCeloTransferTransaction_def v sym None option.case Let_def
    apply (simp only: refl if_True prod.case)
    apply (intro exI conjI)
       apply (rule refl)
      apply (simp only: celo_request_ok_def None option.case)
      apply (simp add: fee_request_data_def no_fee_data_def truthy_str_def keep_truthy_def)
     apply (simp add: io_bind_fst local_build_fst io_return_def celo_build_ok_def None sym
        split: sum.splits prod.splits)
    apply (simp add: io_bind_snd io_return_def split: sum.splits prod.splits)
    done
next
  case (Some m)
  show ?thesis
    unfolding createCeloTransferTransaction_def v sym Some option.case Let_def
    apply (simp only: refl if_True prod.case)
    apply (intro exI conjI)
       apply (rule refl)
      apply (simp only: celo_request_ok_def Some option.case)
      apply (simp add: fee_request_data_def no_fee_data_def truthy_str_def keep_truthy_def)
     apply (simp add: io_bind_fst local_build_fst io_return_def celo_build_ok_def Some sym
        split: sum.splits prod.splits)
    apply (simp add: io_bind_snd io_return_def split: sum.splits prod.splits)
    done
qed


text \<open>
  C7. For a native (CELO) transfer that passes validation, with the wallet-info and the
  fee request answered, the construction makes three calls: the wallet-info request, one
  fee request and the builder. The memo (a non-empty string) decides the shape. With a
  memo, the fee is quoted for a contract call (type \<open>CALL_CONTRACT_METHOD\<close>, method
  \<open>transferWithComment\<close>, the address of the token contract, parameters destination,
  amount in wei and memo, no amount), the builder is given the memo and that contract
  address, and the transaction it assembles is that contract call. With no memo, the fee
  is quoted for a plain transfer (type \<open>TRANSFER\<close>, no method, no parameters, no contract
  address, the amount), the builder is given no contract address, and the transaction it
  assembles is a plain value transfer of the amount to the destination.
\<close>

theorem celo_native_memo_decides_shape:
  assumes v: "v ti = None"
  assumes sym: "transfer_input.tokenSymbol ti = ''CELO''"
  assumes info: "\<exists>i. requestWalletInfo c (wallet.address (transfer_input.wallet ti)) CELO = Inr i"
  assumes fee: "\<And>d. \<exists>q. requestFee c d CELO = Inr q"
  shows "\<exists>d opts.
       fst (createCeloTransferTransaction c v ti) =
         [GetWalletInfo (wallet.address (transfer_input.wallet ti)) CELO, GetFee d CELO,
          BuildCeloTransferTransaction opts]
     \<and> celo_request_ok c ti d
     \<and> celo_build_ok c ti (BuildCeloTransferTransaction opts)
     \<and> celo_unsigned_transaction c opts =
         (case keep_truthy (transfer_input.memo ti) of
            Some m \<Rightarrow> \<lparr>
              unsigned_transaction.type' = CALL_CONTRACT_METHOD,
              unsigned_transaction.to =
                Some (getTokenAddress c CELO ''CELO'' (resolve_testnet c (transfer_input.testnet ti))),
              unsigned_transaction.method' = Some ''transferWithComment'',
              unsigned_transaction.params =
                Some [transfer_input.destination ti, toWei c (transfer_input.amount ti), m],
              unsigned_transaction.value' = None\<rparr>
          | None \<Rightarrow> \<lparr>
              unsigned_transaction.type' = TRANSFER,
              unsigned_transaction.to = Some (transfer_input.destination ti),
              unsigned_transaction.method' = None,
              unsigned_transaction.params = None,
              unsigned_transaction.value' = Some (transfer_input.amount ti)\<rparr>)"
proof -
  from celo_native_shape [where v=v and ti=ti and c=c, OF v sym] obtain a k where
    eq: "createCeloTransferTransaction c v ti =
            io_bind (getFeeInfo c (transfer_input.wallet ti) (transfer_input.fee ti) CELO a) k"
    and req: "celo_request_ok c ti
               (fee_request_data (a\<lparr>fee_data.from' := Some (wallet.address (transfer_input.wallet ti))\<rparr>))"
    and ev: "\<And>x. \<exists>ev. fst (k x) = [ev] \<and> celo_build_ok c ti ev"
    by blast
  let ?g = "getFeeInfo c (transfer_input.wallet ti) (transfer_input.fee ti) CELO a"
  let ?d = "fee_request_data (a\<lparr>fee_data.from' := Some (wallet.address (transfer_input.wallet ti))\<rparr>)"
  from info obtain i where i: "requestWalletInfo c (wallet.address (transfer_input.wallet ti)) CELO = Inr i"
    by blast
  from fee obtain q where q: "requestFee c ?d CELO = Inr q" by blast
  have s: "snd ?g = Inr (i, merge_fee (transfer_input.fee ti) q)"
    by (simp add: getFeeInfo_snd i q)
  from ev [of "(i, merge_fee (transfer_input.fee ti) q)"] obtain e where
    e: "fst (k (i, merge_fee (transfer_input.fee ti) q)) = [e]" and ok: "celo_build_ok c ti e"
    by blast
  from ok obtain opts where opts: "e = BuildCeloTransferTransaction opts"
    by (cases e) (simp_all add: celo_build_ok_def)
  have tr: "fst (io_bind ?g k) =
         [GetWalletInfo (wallet.address (transfer_input.wallet ti)) CELO, GetFee ?d CELO,
          BuildCeloTransferTransaction opts]"
    by (simp add: io_bind_fst s getFeeInfo_fst e opts)
  have f: "transfer_options.contractAddress opts =
            (case keep_truthy (transfer_input.memo ti) of
               Some m \<Rightarrow> Some (getTokenAddress c CELO ''CELO''
                           (resolve_testnet c (transfer_input.testnet ti)))
             | None \<Rightarrow> None)"
    "transfer_options.memo opts = transfer_input.memo ti"
    "transfer_options.tokenSymbol opts = ''CELO''"
    "transfer_options.amount opts = transfer_input.amount ti"
    "transfer_options.destination opts = transfer_input.destination ti"
    using ok by (simp_all add: opts celo_build_ok_def sym)
  have sh: "celo_unsigned_transaction c opts =
         (case keep_truthy (transfer_input.memo ti) of
            Some m \<Rightarrow> \<lparr>
              unsigned_transaction.type' = CALL_CONTRACT_METHOD,
              unsigned_transaction.to =
                Some (getTokenAddress c CELO ''CELO'' (resolve_testnet c (transfer_input.testnet ti))),
              unsigned_transaction.method' = Some ''transferWithComment'',
              unsigned_transaction.params =
                Some [transfer_input.destination ti, toWei c (transfer_input.amount ti), m],
              unsigned_transaction.value' = None\<rparr>
          | None \<Rightarrow> \<lparr>
              unsigned_transaction.type' = TRANSFER,
              unsigned_transaction.to = Some (transfer_input.destination ti),
              unsigned_transaction.method' = None,
              unsigned_transaction.params = None,
              unsigned_transaction.value' = Some (transfer_input.amount ti)\<rparr>)"
    by (cases "keep_truthy (transfer_input.memo ti)")
       (auto simp add: celo_unsigned_transaction_def f keep_truthy_def truthy_str_def
          split: if_splits option.splits)
  show ?thesis
    unfolding eq using tr req ok sh opts by blast
qed

theorem celo_native_memo_decides_shape_witness:
  "(\<exists>d opts.
       fst (createCeloTransferTransaction sample_controller accept sample_transfer) =
         [GetWalletInfo ''0xabc'' CELO, GetFee d CELO, BuildCeloTransferTransaction opts]
     \<and> fee_data.type' d = Some CALL_CONTRACT_METHOD
     \<and> fee_data.method' d = Some ''transferWithComment''
     \<and> fee_data.params d =
           Some [''0x3f2f3D45196D7B99D0a615e8f530165eCb93e772'', ''100000000000000000'',
                 ''create-transfer'']
     \<and> transfer_options.memo opts = Some ''create-transfer''
     \<and> transfer_options.contractAddress opts = Some ''0xF194afDf50B03e69Bd7D057c1Aa9e10c9954E4C9''
     \<and> celo_unsigned_transaction sample_controller opts = \<lparr>
              unsigned_transaction.type' = CALL_CONTRACT_METHOD,
              unsigned_transaction.to = Some ''0xF194afDf50B03e69Bd7D057c1Aa9e10c9954E4C9'',
              unsigned_transaction.method' = Some ''transferWithComment'',
              unsigned_transaction.params =
                Some [''0x3f2f3D45196D7B99D0a615e8f530165eCb93e772'', ''100000000000000000'',
                      ''create-transfer''],
              unsigned_transaction.value' = None\<rparr>)
   \<and> (\<exists>d opts.
       fst (createCeloTransferTransaction sample_controller accept
              (sample_transfer\<lparr>transfer_input.memo := None\<rparr>)) =
         [GetWalletInfo ''0xabc'' CELO, GetFee d CELO, BuildCeloTransferTransaction opts]
     \<and> fee_data.type' d = Some TRANSFER
     \<and> fee_data.method' d = None
     \<and> fee_data.amount d = Some ''0.1''
     \<and> transfer_options.contractAddress opts = None
     \<and> celo_unsigned_transaction sample_controller opts = \<lparr>
              unsigned_transaction.type' = TRANSFER,
              unsigned_transaction.to = Some ''0x3f2f3D45196D7B99D0a615e8f530165eCb93e772'',
              unsigned_transaction.method' = None,
              unsigned_transaction.params = None,
              unsigned_transaction.value' = Some ''0.1''\<rparr>)"
proof -
  let ?nm = "sample_transfer\<lparr>transfer_input.memo := None\<rparr>"
  have a: "accept sample_transfer = None" "accept ?nm = None" by (simp_all add: accept_def)
  have s: "transfer_input.tokenSymbol sample_transfer = ''CELO''"
    "transfer_input.tokenSymbol ?nm = ''CELO''"
    by (simp_all add: sample_transfer_def)
  have i: "\<And>ti. \<exists>i. requestWalletInfo sample_controller
                 (wallet.address (transfer_input.wallet ti)) CELO = Inr i"
    by (simp add: sample_controller_def)
  have f: "\<And>d. \<exists>q. requestFee sample_controller d CELO = Inr q"
    by (simp add: sample_controller_def)
  from celo_native_memo_decides_shape [of accept sample_transfer sample_controller, OF a(1) s(1) i f]
  have 1: "\<exists>d opts.
       fst (createCeloTransferTransaction sample_controller accept sample_transfer) =
         [GetWalletInfo ''0xabc'' CELO, GetFee d CELO, BuildCeloTransferTransaction opts]
     \<and> fee_data.type' d = Some CALL_CONTRACT_METHOD
     \<and> fee_data.method' d = Some ''transferWithComment''
     \<and> fee_data.params d =
           Some [''0x3f2f3D45196D7B99D0a615e8f530165eCb93e772'', ''100000000000000000'',
                 ''create-transfer'']
     \<and> transfer_options.memo opts = Some ''create-transfer''
     \<and> transfer_options.contractAddress opts = Some ''0xF194afDf50B03e69Bd7D057c1Aa9e10c9954E4C9''
     \<and> celo_unsigned_transaction sample_controller opts = \<lparr>
              unsigned_transaction.type' = CALL_CONTRACT_METHOD,
              unsigned_transaction.to = Some ''0xF194afDf50B03e69Bd7D057c1Aa9e10c9954E4C9'',
              unsigned_transaction.method' = Some ''transferWithComment'',
              unsigned_transaction.params =
                Some [''0x3f2f3D45196D7B99D0a615e8f530165eCb93e772'', ''100000000000000000'',
                      ''create-transfer''],
              unsigned_transaction.value' = None\<rparr>"
    by (auto simp add: celo_request_ok_def celo_build_ok_def keep_truthy_def truthy_str_def
        sample_simps resolve_testnet_def)
  from celo_native_memo_decides_shape [of accept ?nm sample_controller, OF a(2) s(2) i f]
  have 2: "\<exists>d opts.
       fst (createCeloTransferTransaction sample_controller accept ?nm) =
         [GetWalletInfo ''0xabc'' CELO, GetFee d CELO, BuildCeloTransferTransaction opts]
     \<and> fee_data.type' d = Some TRANSFER
     \<and> fee_data.method' d = None
     \<and> fee_data.amount d = Some ''0.1''
     \<and> transfer_options.contractAddress opts = None
     \<and> celo_unsigned_transaction sample_controller opts = \<lparr>
              unsigned_transaction.type' = TRANSFER,
              unsigned_transaction.to = Some ''0x3f2f3D45196D7B99D0a615e8f530165eCb93e772'',
              unsigned_transaction.method' = None,
              unsigned_transaction.params = None,
              unsigned_transaction.value' = Some ''0.1''\<rparr>"
    by (auto simp add: celo_request_ok_def celo_build_ok_def keep_truthy_def truthy_str_def
        sample_simps resolve_testnet_def)
  from 1 2 show ?thesis by blast
qed

subsection \<open>Ripple validity window\<close>

lemma ripple_builds_Nil: "ripple_builds [] = []"
  by (simp add: ripple_builds_def map_filter_simps)

lemma ripple_builds_Cons:
  "ripple_builds (ev # tr) =
     (case ripple_options_of ev of None \<Rightarrow> ripple_builds tr | Some opts \<Rightarrow> opts # ripple_builds tr)"
  by (simp add: ripple_builds_def map_filter_simps split: option.splits)

lemma ripple_builds_append: "ripple_builds (xs @ ys) = ripple_builds xs @ ripple_builds ys"
  by (simp add: ripple_builds_def List.map_filter_def)

lemma getWalletInfo_fst: "fst (getWalletInfo c a p) = [GetWalletInfo a p]"
  by (simp add: getWalletInfo_def io_call_def)

lemma getWalletInfo_snd: "snd (getWalletInfo c a p) = requestWalletInfo c a p"
  by (simp add: getWalletInfo_def io_call_def)

lemma resolve_flat_fee_builds: "ripple_builds (fst (resolve_flat_fee c f ty p)) = []"
  by (simp add: resolve_flat_fee_def io_bind_fst getFee_def io_call_def io_return_def Let_def
      ripple_builds_Nil ripple_builds_Cons split: sum.splits)

lemma resolve_flat_fee_length: "length (fst (resolve_flat_fee c f ty p)) \<le> 1"
  by (simp add: resolve_flat_fee_def io_bind_fst getFee_def io_call_def io_return_def Let_def
      split: sum.splits)

text \<open>
  C8. A Ripple transfer and a Ripple trustline construction that pass validation, whose
  wallet-info request succeeds and whose flat fee resolves (the caller's fee, or the
  quoted estimate), begin with the wallet-info request, resolve the fee, and then call
  their builder exactly once, with \<open>maxLedgerVersion = ledgerCurrentIndex + 10\<close>, where
  \<open>ledgerCurrentIndex\<close> is the one the wallet-info request of this very call returned,
  together with the sequence number of the same response. The bound is a field of the
  builder options only: the wallet info has no such field.
\<close>

theorem ripple_validity_window_derived:
  "(v ri = None
     \<and> requestWalletInfo c (wallet.address (ripple_input.wallet ri)) RIPPLE = Inr info
     \<and> snd (resolve_flat_fee c (ripple_input.fee ri) TRANSFER RIPPLE) = Inr networkFee
    \<longrightarrow> fst (createRippleTransferTransaction c v ri) =
          GetWalletInfo (wallet.address (ripple_input.wallet ri)) RIPPLE
            # fst (resolve_flat_fee c (ripple_input.fee ri) TRANSFER RIPPLE)
            @ [BuildRippleTransferTransaction \<lparr>
                 ripple_options.fromAddress = wallet.address (ripple_input.wallet ri),
                 ripple_options.fromPrivateKey = wallet.privateKey (ripple_input.wallet ri),
                 ripple_options.assetSymbol = ripple_input.assetSymbol ri,
                 ripple_options.issuer = ripple_input.issuer ri,
                 ripple_options.amount = ripple_input.amount ri,
                 ripple_options.destination = ripple_input.destination ri,
                 ripple_options.limit = None,
                 ripple_options.memo = ripple_input.memo ri,
                 ripple_options.fee = networkFee,
                 ripple_options.sequence = wallet_info.sequence info,
                 ripple_options.maxLedgerVersion = wallet_info.ledgerCurrentIndex info + 10,
                 ripple_options.testnet = resolve_testnet c (ripple_input.testnet ri)\<rparr>])
   \<and> (v' ri = None
     \<and> requestWalletInfo c (wallet.address (ripple_input.wallet ri)) RIPPLE = Inr info
     \<and> snd (resolve_flat_fee c (ripple_input.fee ri) CHANGE_TRUST RIPPLE) = Inr networkFee'
    \<longrightarrow> fst (createRippleTrustlineTransaction c v' ri) =
          GetWalletInfo (wallet.address (ripple_input.wallet ri)) RIPPLE
            # fst (resolve_flat_fee c (ripple_input.fee ri) CHANGE_TRUST RIPPLE)
            @ [BuildRippleTrustlineTransaction \<lparr>
                 ripple_options.fromAddress = wallet.address (ripple_input.wallet ri),
                 ripple_options.fromPrivateKey = wallet.privateKey (ripple_input.wallet ri),
                 ripple_options.assetSymbol = ripple_input.assetSymbol ri,
                 ripple_options.issuer = ripple_input.issuer ri,
                 ripple_options.amount = None,
                 ripple_options.destination = None,
                 ripple_options.limit = ripple_input.limit ri,
                 ripple_options.memo = ripple_input.memo ri,
                 ripple_options.fee = networkFee',
                 ripple_options.sequence = wallet_info.sequence info,
                 ripple_options.maxLedgerVersion = wallet_info.ledgerCurrentIndex info + 10,
                 ripple_options.testnet = resolve_testnet c (ripple_input.testnet ri)\<rparr>])"
proof (intro conjI impI)
  assume a: "v ri = None
     \<and> requestWalletInfo c (wallet.address (ripple_input.wallet ri)) RIPPLE = Inr info
     \<and> snd (resolve_flat_fee c (ripple_input.fee ri) TRANSFER RIPPLE) = Inr networkFee"
  then show "fst (createRippleTransferTransaction c v ri) =
          GetWalletInfo (wallet.address (ripple_input.wallet ri)) RIPPLE
            # fst (resolve_flat_fee c (ripple_input.fee ri) TRANSFER RIPPLE)
            @ [BuildRippleTransferTransaction \<lparr>
                 ripple_options.fromAddress = wallet.address (ripple_input.wallet ri),
                 ripple_options.fromPrivateKey = wallet.privateKey (ripple_input.wallet ri),
                 ripple_options.assetSymbol = ripple_input.assetSymbol ri,
                 ripple_options.issuer = ripple_input.issuer ri,
                 ripple_options.amount = ripple_input.amount ri,
                 ripple_options.destination = ripple_input.destination ri,
                 ripple_options.limit = None,
                 ripple_options.memo = ripple_input.memo ri,
                 ripple_options.fee = networkFee,
                 ripple_options.sequence = wallet_info.sequence info,
                 ripple_options.maxLedgerVersion = wallet_info.ledgerCurrentIndex info + 10,
                 ripple_options.testnet = resolve_testnet c (ripple_input.testnet ri)\<rparr>]"
    by (simp add: createRippleTransferTransaction_def Let_def io_bind_fst io_bind_snd
        getWalletInfo_fst getWalletInfo_snd local_build_fst io_return_fst split: sum.splits)
next
  assume a: "v' ri = None
     \<and> requestWalletInfo c (wallet.address (ripple_input.wallet ri)) RIPPLE = Inr info
     \<and> snd (resolve_flat_fee c (ripple_input.fee ri) CHANGE_TRUST RIPPLE) = Inr networkFee'"
  then show "fst (createRippleTrustlineTransaction c v' ri) =
          GetWalletInfo (wallet.address (ripple_input.wallet ri)) RIPPLE
            # fst (resolve_flat_fee c (ripple_input.fee ri) CHANGE_TRUST RIPPLE)
            @ [BuildRippleTrustlineTransaction \<lparr>
                 ripple_options.fromAddress = wallet.address (ripple_input.wallet ri),
                 ripple_options.fromPrivateKey = wallet.privateKey (ripple_input.wallet ri),
                 ripple_options.assetSymbol = ripple_input.assetSymbol ri,
                 ripple_options.issuer = ripple_input.issuer ri,
                 ripple_options.amount = None,
                 ripple_options.destination = None,
                 ripple_options.limit = ripple_input.limit ri,
                 ripple_options.memo = ripple_input.memo ri,
                 ripple_options.fee = networkFee',
                 ripple_options.sequence = wallet_info.sequence info,
                 ripple_options.maxLedgerVersion = wallet_info.ledgerCurrentIndex info + 10,
                 ripple_options.testnet = resolve_testnet c (ripple_input.testnet ri)\<rparr>]"
    by (simp add: createRippleTrustlineTransaction_def Let_def io_bind_fst io_bind_snd
        getWalletInfo_fst getWalletInfo_snd local_build_fst io_return_fst split: sum.splits)
qed

theorem ripple_validity_window_derived_witness:
  "map ripple_options.maxLedgerVersion
      (ripple_builds (fst (createRippleTransferTransaction sample_controller accept sample_ripple)))
     = [1010]
   \<and> map is_network_call
        (fst (createRippleTransferTransaction sample_controller accept sample_ripple))
     = [True, True, False]
   \<and> map ripple_options.maxLedgerVersion
      (ripple_builds (fst (createRippleTrustlineTransaction sample_controller accept sample_ripple)))
     = [1010]
   \<and> map ripple_options.maxLedgerVersion
      (ripple_builds (fst (createRippleTrustlineTransaction
         (sample_controller\<lparr>requestWalletInfo :=
            \<lambda>a p. Inr (sample_info\<lparr>wallet_info.ledgerCurrentIndex := 77\<rparr>)\<rparr>) accept
         (sample_ripple\<lparr>ripple_input.fee := JsString ''10''\<rparr>))))
     = [87]"
proof -
  let ?c = "sample_controller\<lparr>requestWalletInfo :=
            \<lambda>a p. Inr (sample_info\<lparr>wallet_info.ledgerCurrentIndex := 77\<rparr>)\<rparr>"
  let ?ri = "sample_ripple\<lparr>ripple_input.fee := JsString ''10''\<rparr>"
  have i: "\<And>a. requestWalletInfo sample_controller a RIPPLE = Inr sample_info"
    "\<And>a. requestWalletInfo ?c a RIPPLE = Inr (sample_info\<lparr>wallet_info.ledgerCurrentIndex := 77\<rparr>)"
    by (simp_all add: sample_controller_def)
  have f: "resolve_flat_fee sample_controller (ripple_input.fee sample_ripple) TRANSFER RIPPLE =
             ([GetFee (no_fee_data\<lparr>fee_data.type' := Some TRANSFER\<rparr>) RIPPLE], Inr (JsString ''12''))"
    "resolve_flat_fee sample_controller (ripple_input.fee sample_ripple) CHANGE_TRUST RIPPLE =
             ([GetFee (no_fee_data\<lparr>fee_data.type' := Some CHANGE_TRUST\<rparr>) RIPPLE], Inr (JsString ''12''))"
    "resolve_flat_fee ?c (JsString ''10'') CHANGE_TRUST RIPPLE = ([], Inr (JsString ''10''))"
    by (simp_all add: resolve_flat_fee_def sample_ripple_def io_simps sample_simps)
  have a: "accept sample_ripple = None" "accept ?ri = None"
    by (simp_all add: accept_def)
  have t1: "fst (createRippleTransferTransaction sample_controller accept sample_ripple) =
      [GetWalletInfo (wallet.address (ripple_input.wallet sample_ripple)) RIPPLE,
       GetFee (no_fee_data\<lparr>fee_data.type' := Some TRANSFER\<rparr>) RIPPLE,
       BuildRippleTransferTransaction \<lparr>
                 ripple_options.fromAddress = wallet.address (ripple_input.wallet sample_ripple),
                 ripple_options.fromPrivateKey = wallet.privateKey (ripple_input.wallet sample_ripple),
                 ripple_options.assetSymbol = ripple_input.assetSymbol sample_ripple,
                 ripple_options.issuer = ripple_input.issuer sample_ripple,
                 ripple_options.amount = ripple_input.amount sample_ripple,
                 ripple_options.destination = ripple_input.destination sample_ripple,
                 ripple_options.limit = None,
                 ripple_options.memo = ripple_input.memo sample_ripple,
                 ripple_options.fee = JsString ''12'',
                 ripple_options.sequence = wallet_info.sequence sample_info,
                 ripple_options.maxLedgerVersion = wallet_info.ledgerCurrentIndex sample_info + 10,
                 ripple_options.testnet = resolve_testnet sample_controller (ripple_input.testnet sample_ripple)\<rparr>]"
    using ripple_validity_window_derived
      [of accept sample_ripple sample_controller sample_info "JsString ''12''" accept "JsString ''12''",
       THEN conjunct1]
    by (simp only: a i f snd_conv fst_conv simp_thms append.simps)
  have t2: "fst (createRippleTrustlineTransaction sample_controller accept sample_ripple) =
      [GetWalletInfo (wallet.address (ripple_input.wallet sample_ripple)) RIPPLE,
       GetFee (no_fee_data\<lparr>fee_data.type' := Some CHANGE_TRUST\<rparr>) RIPPLE,
       BuildRippleTrustlineTransaction \<lparr>
                 ripple_options.fromAddress = wallet.address (ripple_input.wallet sample_ripple),
                 ripple_options.fromPrivateKey = wallet.privateKey (ripple_input.wallet sample_ripple),
                 ripple_options.assetSymbol = ripple_input.assetSymbol sample_ripple,
                 ripple_options.issuer = ripple_input.issuer sample_ripple,
                 ripple_options.amount = None,
                 ripple_options.destination = None,
                 ripple_options.limit = ripple_input.limit sample_ripple,
                 ripple_options.memo = ripple_input.memo sample_ripple,
                 ripple_options.fee = JsString ''12'',
                 ripple_options.sequence = wallet_info.sequence sample_info,
                 ripple_options.maxLedgerVersion = wallet_info.ledgerCurrentIndex sample_info + 10,
                 ripple_options.testnet = resolve_testnet sample_controller (ripple_input.testnet sample_ripple)\<rparr>]"
    using ripple_validity_window_derived
      [of accept sample_ripple sample_controller sample_info "JsString ''12''" accept "JsString ''12''",
       THEN conjunct2]
    by (simp only: a i f snd_conv fst_conv simp_thms append.simps)
  have t3: "map ripple_options.maxLedgerVersion
      (ripple_builds (fst (createRippleTrustlineTransaction ?c accept ?ri))) = [87]"
    using ripple_validity_window_derived
      [of accept ?ri ?c "sample_info\<lparr>wallet_info.ledgerCurrentIndex := 77\<rparr>" "JsString ''10''"
          accept "JsString ''10''", THEN conjunct2]
    by (simp add: accept_def i f sample_ripple_def ripple_builds_Cons ripple_builds_Nil)
  have e: "wallet_info.ledgerCurrentIndex sample_info + 10 = 1010"
    by (simp add: sample_info_def)
  show ?thesis
    by (simp add: t1 t2 t3 e ripple_builds_Cons ripple_builds_Nil)
qed


subsection \<open>Solana envelope tag\<close>

text \<open>
  C9. The envelope returned by the Solana token mint construction is tagged
  \<open>SOLANA_TOKEN_BURN\<close>, the tag of the envelope the token burn construction returns.
\<close>

theorem solana_mint_envelope_tagged_burn:
  assumes "snd (createSolanaTokenMintTransaction c v si) = Inr envelope"
  shows "signed_transaction.type' envelope = SOLANA_TOKEN_BURN
       \<and> (case snd (createSolanaTokenBurnTransaction c v' si') of
            Inr envelope' \<Rightarrow> signed_transaction.type' envelope' = signed_transaction.type' envelope
          | Inl e \<Rightarrow> True)"
proof -
  have mint: "signed_transaction.type' envelope = SOLANA_TOKEN_BURN"
    using assms
    by (cases "v si")
       (auto simp add: createSolanaTokenMintTransaction_def io_throw_def io_bind_snd
          io_return_def split: sum.splits)
  have burn: "case snd (createSolanaTokenBurnTransaction c v' si') of
            Inr envelope' \<Rightarrow> signed_transaction.type' envelope' = SOLANA_TOKEN_BURN
          | Inl e \<Rightarrow> True"
    by (cases "v' si'")
       (auto simp add: createSolanaTokenBurnTransaction_def io_throw_def io_bind_snd
          io_return_def split: sum.splits)
  from mint burn show ?thesis by (simp split: sum.splits)
qed

theorem solana_mint_envelope_tagged_burn_witness:
  "snd (createSolanaTokenMintTransaction sample_controller accept sample_solana) =
     Inr \<lparr>signed_transaction.signedTx = ''0xsigned'', signed_transaction.protocol = SOLANA,
          signed_transaction.type' = SOLANA_TOKEN_BURN\<rparr>
   \<and> signed_transaction.type'
        \<lparr>signed_transaction.signedTx = ''0xsigned'', signed_transaction.protocol = SOLANA,
         signed_transaction.type' = SOLANA_TOKEN_BURN\<rparr> = SOLANA_TOKEN_BURN
   \<and> snd (createSolanaTokenBurnTransaction sample_controller accept sample_solana) =
       snd (createSolanaTokenMintTransaction sample_controller accept sample_solana)"
proof -
  have m: "snd (createSolanaTokenMintTransaction sample_controller accept sample_solana) =
     Inr \<lparr>signed_transaction.signedTx = ''0xsigned'', signed_transaction.protocol = SOLANA,
          signed_transaction.type' = SOLANA_TOKEN_BURN\<rparr>"
    by (simp add: createSolanaTokenMintTransaction_def getLatestBlock_def io_simps sample_simps)
  have b: "snd (createSolanaTokenBurnTransaction sample_controller accept sample_solana) =
     Inr \<lparr>signed_transaction.signedTx = ''0xsigned'', signed_transaction.protocol = SOLANA,
          signed_transaction.type' = SOLANA_TOKEN_BURN\<rparr>"
    by (simp add: createSolanaTokenBurnTransaction_def getLatestBlock_def io_simps sample_simps)
  from solana_mint_envelope_tagged_burn [OF m, of accept sample_solana] m b
  show ?thesis by simp
qed

subsection \<open>Bitcoin explicit inputs\<close>

lemma getTransactionByHash_fst: "fst (getTransactionByHash c h p) = [GetTransactionByHash h p]"
  by (simp add: getTransactionByHash_def io_call_def)

lemma getTransactionByHash_snd:
  "snd (getTransactionByHash c h p) =
     (case requestTransactionByHash c h p of Inl e \<Rightarrow> Inl (handleRequestError c e) | Inr tx \<Rightarrow> Inr tx)"
  by (simp add: getTransactionByHash_def io_call_def)

lemma explicit_inputs_no_signing: "filter is_signing_call (fst (explicit_inputs c ins)) = []"
  by (induction ins)
     (simp_all add: io_return_def io_bind_fst getTransactionByHash_fst is_signing_call_def
        io_throw_def split: sum.splits option.splits)

lemma explicit_inputs_invalid:
  assumes "list_all (input_resolves c) ins"
  assumes "list_ex (index_missing c) ins"
  shows "\<exists>i \<in> set ins. index_missing c i \<and>
           snd (explicit_inputs c ins) =
             Inl (GenericException (''Invalid UTXO hash '' @ tx_input.txHash i)
                    (Some ''InvalidParams''))"
  using assms
proof (induction ins)
  case Nil
  then show ?case by simp
next
  case (Cons i ins)
  from Cons.prems obtain tx where
    tx: "requestTransactionByHash c (tx_input.txHash i) BITCOIN = Inr tx"
    by (auto simp add: input_resolves_def split: sum.splits)
  show ?case
  proof (cases "nth_opt (transaction.vout tx) (tx_input.index i)")
    case None
    then show ?thesis
      using tx
      by (simp add: io_bind_snd getTransactionByHash_snd io_throw_def index_missing_def)
  next
    case (Some out)
    with tx have "\<not> index_missing c i"
      by (simp add: index_missing_def)
    with Cons.prems have "list_ex (index_missing c) ins"
      by simp
    moreover from Cons.prems have "list_all (input_resolves c) ins" by simp
    ultimately obtain j where j: "j \<in> set ins" "index_missing c j"
      "snd (explicit_inputs c ins) =
             Inl (GenericException (''Invalid UTXO hash '' @ tx_input.txHash j)
                    (Some ''InvalidParams''))"
      using Cons.IH by blast
    then show ?thesis
      using tx Some
      by (auto simp add: io_bind_snd getTransactionByHash_snd)
  qed
qed

text \<open>
  C5. A Bitcoin transfer with caller-supplied inputs and no wallet, that passes
  validation and whose input transactions can all be fetched: if the transaction of
  some input has no output at the input's index, the construction raises
  \<open>GenericException('Invalid UTXO hash <hash>', 'InvalidParams')\<close> for such an input, and it
  calls no builder and no signing primitive: nothing is signed.
\<close>

theorem bitcoin_missing_index_fails_before_signing:
  assumes v: "v bi = None"
  assumes w: "bitcoin_input.wallet bi = None"
  assumes ins: "bitcoin_input.inputs bi = Some ins"
  assumes res: "list_all (input_resolves c) ins"
  assumes bad: "list_ex (index_missing c) ins"
  shows "\<exists>i \<in> set ins. index_missing c i \<and>
           snd (createBitcoinTransferTransaction c v bi) =
             Inl (GenericException (''Invalid UTXO hash '' @ tx_input.txHash i)
                    (Some ''InvalidParams''))
         \<and> filter is_signing_call (fst (createBitcoinTransferTransaction c v bi)) = []"
proof -
  from explicit_inputs_invalid [OF res bad] obtain i where
    i: "i \<in> set ins" "index_missing c i"
       "snd (explicit_inputs c ins) =
             Inl (GenericException (''Invalid UTXO hash '' @ tx_input.txHash i)
                    (Some ''InvalidParams''))"
    by blast
  have "snd (createBitcoinTransferTransaction c v bi) =
             Inl (GenericException (''Invalid UTXO hash '' @ tx_input.txHash i)
                    (Some ''InvalidParams''))"
    using i(3) by (simp add: createBitcoinTransferTransaction_def v w ins io_bind_snd)
  moreover have "filter is_signing_call (fst (createBitcoinTransferTransaction c v bi)) = []"
    using i(3) explicit_inputs_no_signing [of c ins]
    by (simp add: createBitcoinTransferTransaction_def v w ins io_bind_fst io_bind_snd)
  ultimately show ?thesis using i(1,2) by blast
qed


theorem bitcoin_missing_index_fails_before_signing_witness:
  "accept sample_bitcoin = None
   \<and> bitcoin_input.wallet sample_bitcoin = None
   \<and> list_all (input_resolves
        (sample_controller\<lparr>requestTransactionByHash := \<lambda>h p. Inr sample_bitcoin_tx\<rparr>))
        (case bitcoin_input.inputs sample_bitcoin of Some ins \<Rightarrow> ins | None \<Rightarrow> [])
   \<and> list_ex (index_missing
        (sample_controller\<lparr>requestTransactionByHash := \<lambda>h p. Inr sample_bitcoin_tx\<rparr>))
        (case bitcoin_input.inputs sample_bitcoin of Some ins \<Rightarrow> ins | None \<Rightarrow> [])
   \<and> createBitcoinTransferTransaction
        (sample_controller\<lparr>requestTransactionByHash := \<lambda>h p. Inr sample_bitcoin_tx\<rparr>)
        accept sample_bitcoin
       = ([GetTransactionByHash ''aa'' BITCOIN, GetTransactionByHash ''bb'' BITCOIN],
          Inl (GenericException ''Invalid UTXO hash bb'' (Some ''InvalidParams'')))"
proof -
  let ?c = "sample_controller\<lparr>requestTransactionByHash := \<lambda>h p. Inr sample_bitcoin_tx\<rparr>"
  let ?ins = "[
       \<lparr>tx_input.txHash = ''aa'', tx_input.index = 1, tx_input.privateKey = ''k1'',
        tx_input.hex = None, tx_input.blockhash = None, tx_input.value' = None,
        tx_input.token = None\<rparr>,
       \<lparr>tx_input.txHash = ''bb'', tx_input.index = 2, tx_input.privateKey = ''k2'',
        tx_input.hex = None, tx_input.blockhash = None, tx_input.value' = None,
        tx_input.token = None\<rparr>]"
  have a: "accept sample_bitcoin = None" by (simp add: accept_def)
  have w: "bitcoin_input.wallet sample_bitcoin = None" by (simp add: sample_bitcoin_def)
  have i: "bitcoin_input.inputs sample_bitcoin = Some ?ins" by (simp add: sample_bitcoin_def)
  have r: "list_all (input_resolves ?c) ?ins"
    by (simp add: input_resolves_def sample_controller_def)
  have b: "list_ex (index_missing ?c) ?ins"
    by (simp add: index_missing_def sample_controller_def sample_bitcoin_tx_def nth_opt_def)
  have e: "createBitcoinTransferTransaction ?c accept sample_bitcoin
       = ([GetTransactionByHash ''aa'' BITCOIN, GetTransactionByHash ''bb'' BITCOIN],
          Inl (GenericException ''Invalid UTXO hash bb'' (Some ''InvalidParams'')))"
    by (simp add: createBitcoinTransferTransaction_def getTransactionByHash_def io_simps
        sample_simps sample_bitcoin_def sample_bitcoin_tx_def nth_opt_def)
  from bitcoin_missing_index_fails_before_signing
      [where v=accept and bi=sample_bitcoin and c="?c", OF a w i r b] a w r b e
  show ?thesis by (simp add: i)
qed

subsection \<open>Hathor melt selection\<close>

lemma input_key_mk: "input_key (mk_input w u) = utxo_key u"
  by (simp add: input_key_def utxo_key_def mk_input_def)

lemma select_step_melt:
  "select_step HATHOR_TOKEN_MELT amt w u out (s0, ins0) =
     (if ordinary_value out then
        (if s0 < amt then (s0 + hathor_output.value' out, ins0 @ [mk_input w u]) else (s0, ins0))
      else if melt_authority out then (s0, ins0 @ [mk_input w u])
      else (s0, ins0))"
  by (simp add: select_step_def Let_def ordinary_value_def melt_authority_def mk_input_def)

lemma hathor_token_builds_Nil: "hathor_token_builds [] = []"
  by (simp add: hathor_token_builds_def map_filter_simps)

lemma hathor_token_builds_Cons:
  "hathor_token_builds (ev # tr) =
     (case hathor_token_options_of ev of None \<Rightarrow> hathor_token_builds tr
      | Some opts \<Rightarrow> opts # hathor_token_builds tr)"
  by (simp add: hathor_token_builds_def map_filter_simps split: option.splits)

lemma hathor_token_builds_append:
  "hathor_token_builds (xs @ ys) = hathor_token_builds xs @ hathor_token_builds ys"
  by (simp add: hathor_token_builds_def List.map_filter_def)

lemma ordinary_total_Nil: "ordinary_total c [] = 0"
  by (simp add: ordinary_total_def)

lemma ordinary_total_Cons:
  "ordinary_total c (u # us) =
     (if is_ordinary c (utxo_key u) then output_value c (utxo_key u) + ordinary_total c us
      else ordinary_total c us)"
  by (simp add: ordinary_total_def)

lemma melt_select_is_walk:
  assumes "list_all (resolves c) us"
  shows "hathor_token_select c HATHOR_TOKEN_MELT amt w us (s0, ins0) =
           (map (\<lambda>u. GetTransactionByHash (utxo.txHash u) HATHOR) us,
            Inr (s0 + ordinary_total c (melt_walk c amt s0 us),
                 ins0 @ map (mk_input w) (melt_walk c amt s0 us)))"
  using assms
proof (induction us arbitrary: s0 ins0)
  case Nil
  show ?case by (simp add: io_return_def ordinary_total_Nil)
next
  case (Cons u us)
  from Cons.prems obtain out where out: "lookup_output c (utxo_key u) = Some out"
    by (auto simp add: resolves_def)
  then obtain tx where tx: "requestTransactionByHash c (utxo.txHash u) HATHOR = Inr tx"
    and nth: "nth_opt (transaction.outputs tx) (utxo.index u) = Some out"
    by (auto simp add: lookup_output_def utxo_key_def split: sum.splits)
  from Cons.prems have rest: "list_all (resolves c) us" by simp
  have step: "hathor_token_select c HATHOR_TOKEN_MELT amt w (u # us) (s0, ins0) =
      (GetTransactionByHash (utxo.txHash u) HATHOR
         # fst (hathor_token_select c HATHOR_TOKEN_MELT amt w us
                  (select_step HATHOR_TOKEN_MELT amt w u out (s0, ins0))),
       snd (hathor_token_select c HATHOR_TOKEN_MELT amt w us
                  (select_step HATHOR_TOKEN_MELT amt w u out (s0, ins0))))"
    by (simp add: io_bind_def getTransactionByHash_def io_call_def tx nth)
  have kinds: "is_ordinary c (utxo_key u) = ordinary_value out"
    "is_melt_authority c (utxo_key u) = melt_authority out"
    "output_value c (utxo_key u) = hathor_output.value' out"
    by (simp_all add: is_ordinary_def is_melt_authority_def output_value_def out)
  show ?case
    unfolding step select_step_melt
    by (simp add: Cons.IH [OF rest] kinds ordinary_total_Cons add.assoc)
qed

text \<open>
  C2 (as amended). For a Hathor token-melt construction from a wallet that passes
  validation, whose discovery returns an array with at least one output of the target
  token, all of whose transactions resolve: after the discovery the construction
  resolves the outputs of the target token one by one, in discovery order, and then
  calls the builder once, with exactly the inputs of the greedy walk over them (an
  ordinary value output, marker neither 0 nor 129, is taken when the value accumulated
  so far is below the amount in the smallest unit; every melt authority, marker 129 and
  value 2, is taken whatever the amount; nothing else is taken), in the order of the
  walk, and with the total value of the ordinary outputs taken as input sum. Ordinary
  outputs and authorities are selected side by side.
\<close>

theorem melt_selection_is_greedy_walk:
  assumes v: "v ti = None"
  assumes ty: "hathor_token_input.type' ti = HATHOR_TOKEN_MELT"
  assumes body: "requestUTXOs c (wallet.address (hathor_token_input.wallet ti)) HATHOR =
                   Inr (ArrayBody us)"
  assumes cands: "cands = filter (\<lambda>u. Some (utxo.token u) = hathor_token_input.tokenUid ti) us"
  assumes nonempty: "cands \<noteq> []"
  assumes res: "list_all (resolves c) cands"
  assumes sel: "selected = melt_walk c (toHTRUnit c (hathor_token_input.amount ti)) 0 cands"
  shows "fst (createHathorTokenTransactionFromWallet c v ti) =
           GetUTXOs (wallet.address (hathor_token_input.wallet ti)) HATHOR
           # map (\<lambda>u. GetTransactionByHash (utxo.txHash u) HATHOR) cands
           @ [BuildHathorTokenTransaction \<lparr>
                hathor_token_options.type' = HATHOR_TOKEN_MELT,
                hathor_token_options.inputs =
                  map (mk_input (hathor_token_input.wallet ti)) selected,
                hathor_token_options.tokenUid = hathor_token_input.tokenUid ti,
                hathor_token_options.tokenName = hathor_token_input.tokenName ti,
                hathor_token_options.tokenSymbol = hathor_token_input.tokenSymbol ti,
                hathor_token_options.address =
                  or_else (hathor_token_input.address ti)
                    (wallet.address (hathor_token_input.wallet ti)),
                hathor_token_options.changeAddress =
                  or_else (hathor_token_input.changeAddress ti)
                    (wallet.address (hathor_token_input.wallet ti)),
                hathor_token_options.mintAuthorityAddress =
                  hathor_token_input.mintAuthorityAddress ti,
                hathor_token_options.meltAuthorityAddress =
                  hathor_token_input.meltAuthorityAddress ti,
                hathor_token_options.amount = hathor_token_input.amount ti,
                hathor_token_options.testnet = resolve_testnet c (hathor_token_input.testnet ti),
                hathor_token_options.inputSum = ordinary_total c selected\<rparr>]"
proof -
  let ?w = "hathor_token_input.wallet ti"
  let ?amt = "toHTRUnit c (hathor_token_input.amount ti)"
  have tc: "token_candidates HATHOR_TOKEN_MELT (hathor_token_input.tokenUid ti) (map UTXO us) = cands"
  proof -
    have "map UTXO us = us" by (rule map_idI) (simp add: UTXO_def)
    then show ?thesis by (simp add: token_candidates_def cands)
  qed
  have u: "getUTXOs c (wallet.address ?w) HATHOR =
      ([GetUTXOs (wallet.address ?w) HATHOR], Inr (UtxoArray (map UTXO us)))"
    by (simp add: getUTXOs_def io_call_def body)
  note walk = melt_select_is_walk [OF res, of ?amt ?w 0 "[]"]
  show ?thesis
    using nonempty
    by (simp add: createHathorTokenTransactionFromWallet_def v ty Let_def u tc walk sel
        io_bind_def io_return_def local_build_def io_call_def split: sum.splits)
qed

lemmas melt_sample_simps = token_candidates_def UTXO_def getUTXOs_def getTransactionByHash_def
  select_step_def nth_opt_def or_else_def sample_melt_controller_def sample_melt_utxos_def
  sample_melt_tx_def sample_melt_def hathor_token_builds_Cons hathor_token_builds_Nil

text \<open>
  C2 as stated fails: with two ordinary outputs of value 5 discovered before two melt
  authorities and a requested amount of 3, the first ordinary output and both
  authorities are selected; the ordinary output is not ignored, and the selection does
  not stop at one authority.
\<close>

theorem melt_selects_values_and_authorities_counterexample:
  "is_ordinary sample_melt_controller (''t1'', 0)
   \<and> is_melt_authority sample_melt_controller (''t2'', 0)
   \<and> is_melt_authority sample_melt_controller (''t5'', 0)
   \<and> map (\<lambda>opts. map input_key (hathor_token_options.inputs opts))
       (hathor_token_builds
          (fst (createHathorTokenTransactionFromWallet sample_melt_controller accept sample_melt)))
     = [[(''t1'', 0), (''t2'', 0), (''t5'', 0)]]"
  by (simp add: createHathorTokenTransactionFromWallet_def melt_sample_simps io_simps sample_simps
      input_key_def is_ordinary_def is_melt_authority_def lookup_output_def ordinary_value_def
      melt_authority_def)

theorem melt_selection_is_greedy_walk_witness:
  "map utxo_key (melt_walk sample_melt_controller 3 0
      (filter (\<lambda>u. Some (utxo.token u) = Some ''tk'') sample_melt_utxos))
     = [(''t1'', 0), (''t2'', 0), (''t5'', 0)]
   \<and> map (\<lambda>opts. (hathor_token_options.inputSum opts,
                    map input_key (hathor_token_options.inputs opts)))
       (hathor_token_builds
          (fst (createHathorTokenTransactionFromWallet sample_melt_controller accept sample_melt)))
     = [(5, [(''t1'', 0), (''t2'', 0), (''t5'', 0)])]
   \<and> map is_network_call
       (fst (createHathorTokenTransactionFromWallet sample_melt_controller accept sample_melt))
     = [True, True, True, True, True, False]"
proof -
  let ?c = sample_melt_controller
  let ?cands = "filter (\<lambda>u. Some (utxo.token u) = Some ''tk'') sample_melt_utxos"
  let ?sel = "[\<lparr>utxo.txHash = ''t1'', utxo.index = 0, utxo.value' = 5, utxo.token = ''tk''\<rparr>,
     \<lparr>utxo.txHash = ''t2'', utxo.index = 0, utxo.value' = 2, utxo.token = ''tk''\<rparr>,
     \<lparr>utxo.txHash = ''t5'', utxo.index = 0, utxo.value' = 2, utxo.token = ''tk''\<rparr>]"
  have a: "accept sample_melt = None" by (simp add: accept_def)
  have t: "hathor_token_input.type' sample_melt = HATHOR_TOKEN_MELT"
    by (simp add: sample_melt_def)
  have b: "requestUTXOs ?c (wallet.address (hathor_token_input.wallet sample_melt)) HATHOR =
           Inr (ArrayBody sample_melt_utxos)"
    by (simp add: sample_melt_controller_def)
  have uid: "hathor_token_input.tokenUid sample_melt = Some ''tk''"
    by (simp add: sample_melt_def)
  have cs: "?cands = filter (\<lambda>u. Some (utxo.token u) = hathor_token_input.tokenUid sample_melt)
              sample_melt_utxos"
    by (simp add: uid)
  have n: "?cands \<noteq> []" by (simp add: sample_melt_utxos_def)
  have lk: "\<And>h. lookup_output ?c (h, 0) =
      Some (if h \<in> set [''t2'', ''t5'']
        then \<lparr>hathor_output.value' = 2, hathor_output.token_data = 129\<rparr>
        else \<lparr>hathor_output.value' = 5, hathor_output.token_data = 1\<rparr>)"
    by (simp add: lookup_output_def sample_melt_controller_def sample_melt_tx_def nth_opt_def)
  have r: "list_all (resolves ?c) ?cands"
    by (simp add: sample_melt_utxos_def resolves_def utxo_key_def lk)
  have amt: "toHTRUnit ?c (hathor_token_input.amount sample_melt) = 3"
    by (simp add: sample_melt_controller_def sample_controller_def sample_melt_def)
  have w: "melt_walk ?c 3 0 ?cands = ?sel"
    by (simp add: sample_melt_utxos_def utxo_key_def is_ordinary_def is_melt_authority_def
        output_value_def lk ordinary_value_def melt_authority_def)
  have s: "?sel = melt_walk ?c (toHTRUnit ?c (hathor_token_input.amount sample_melt)) 0 ?cands"
    by (simp only: amt w)
  have tot: "ordinary_total ?c ?sel = 5"
    by (simp add: ordinary_total_def utxo_key_def is_ordinary_def output_value_def lk
        ordinary_value_def)
  note walk_eq = melt_selection_is_greedy_walk
    [where v=accept and ti=sample_melt and c="?c" and us=sample_melt_utxos
       and cands="?cands" and selected="?sel", OF a t b cs n r s]
  have k: "map utxo_key (melt_walk ?c 3 0 ?cands) = [(''t1'', 0), (''t2'', 0), (''t5'', 0)]"
    by (simp only: w) (simp add: utxo_key_def)
  have bs: "map (\<lambda>opts. (hathor_token_options.inputSum opts,
                    map input_key (hathor_token_options.inputs opts)))
       (hathor_token_builds
          (fst (createHathorTokenTransactionFromWallet ?c accept sample_melt)))
     = [(5, [(''t1'', 0), (''t2'', 0), (''t5'', 0)])]"
    unfolding walk_eq
    by (simp add: hathor_token_builds_Cons hathor_token_builds_Nil hathor_token_builds_append
        sample_melt_utxos_def tot input_key_mk utxo_key_def)
  have nc: "map is_network_call
       (fst (createHathorTokenTransactionFromWallet ?c accept sample_melt))
     = [True, True, True, True, True, False]"
    unfolding walk_eq by (simp add: sample_melt_utxos_def)
  from k bs nc show ?thesis by simp
qed

subsection \<open>Hathor: no available outputs\<close>

text \<open>
  C6 (as amended). The Hathor token operation from a wallet, when validation passes and
  the discovered outputs filtered by token are empty, raises
  \<open>HathorException('No available UTXOs')\<close> after the discovery request alone; the Hathor
  transfer from a wallet, when validation passes and the discovery itself returns an
  empty array, raises \<open>GenericException('No available UTXOs')\<close> after the discovery request
  alone. In both cases no transaction is resolved and no builder is called.
\<close>

theorem hathor_no_available_utxos:
  "(v ti = None
     \<and> requestUTXOs c (wallet.address (hathor_token_input.wallet ti)) HATHOR = Inr (ArrayBody us)
     \<and> token_candidates (hathor_token_input.type' ti) (hathor_token_input.tokenUid ti)
          (map UTXO us) = []
    \<longrightarrow> createHathorTokenTransactionFromWallet c v ti =
          ([GetUTXOs (wallet.address (hathor_token_input.wallet ti)) HATHOR],
           Inl (HathorException ''No available UTXOs'')))
   \<and> (v' hi = None
     \<and> requestUTXOs c (wallet.address (hathor_transfer_input.wallet hi)) HATHOR = Inr (ArrayBody [])
    \<longrightarrow> createHathorTransferTransactionFromWallet c v' hi =
          ([GetUTXOs (wallet.address (hathor_transfer_input.wallet hi)) HATHOR],
           Inl (GenericException ''No available UTXOs'' None)))"
proof (intro conjI impI)
  assume a: "v ti = None
     \<and> requestUTXOs c (wallet.address (hathor_token_input.wallet ti)) HATHOR = Inr (ArrayBody us)
     \<and> token_candidates (hathor_token_input.type' ti) (hathor_token_input.tokenUid ti)
          (map UTXO us) = []"
  then show "createHathorTokenTransactionFromWallet c v ti =
          ([GetUTXOs (wallet.address (hathor_token_input.wallet ti)) HATHOR],
           Inl (HathorException ''No available UTXOs''))"
    by (simp add: createHathorTokenTransactionFromWallet_def Let_def io_bind_def getUTXOs_def
        io_call_def io_throw_def)
next
  assume a: "v' hi = None
     \<and> requestUTXOs c (wallet.address (hathor_transfer_input.wallet hi)) HATHOR = Inr (ArrayBody [])"
  then show "createHathorTransferTransactionFromWallet c v' hi =
          ([GetUTXOs (wallet.address (hathor_transfer_input.wallet hi)) HATHOR],
           Inl (GenericException ''No available UTXOs'' None))"
    by (simp add: createHathorTransferTransactionFromWallet_def Let_def io_bind_def getUTXOs_def
        io_call_def io_throw_def utxos_length_def)
qed

lemmas hathor_transfer_simps = createHathorTransferTransactionFromWallet_def UTXO_def
  getUTXOs_def getTransactionByHash_def nth_opt_def utxos_length_def normalize_token_def
  sample_hathor_controller_def sample_hathor_utxos_def sample_hathor_tx_def
  sample_hathor_transfer_def

text \<open>
  C6 as stated fails for the transfer: its emptiness test is made on the discovered
  outputs, before they are filtered. A wallet whose outputs carry other tokens than the
  transfer's leaves no candidate, and the builder is called with no inputs.
\<close>

theorem hathor_transfer_builds_without_inputs_counterexample:
  "createHathorTransferTransactionFromWallet sample_hathor_controller accept
     sample_hathor_transfer =
   ([GetUTXOs ''0xabc'' HATHOR,
     BuildHathorTransferTransaction \<lparr>
       hathor_transfer_options.inputs = [],
       hathor_transfer_options.outputs = [\<lparr>
         hathor_transfer_output.address = ''HDest'',
         hathor_transfer_output.amount = 1,
         hathor_transfer_output.token = Some ''00''\<rparr>],
       hathor_transfer_options.tokens = [''00''],
       hathor_transfer_options.changeAddress = ''0xabc'',
       hathor_transfer_options.testnet = True\<rparr>],
    Inr \<lparr>signed_transaction.signedTx = ''0xsigned'', signed_transaction.protocol = HATHOR,
         signed_transaction.type' = TRANSFER\<rparr>)"
  by (simp add: hathor_transfer_simps io_simps sample_simps)

theorem hathor_no_available_utxos_witness:
  "accept (sample_melt\<lparr>hathor_token_input.tokenUid := Some ''none''\<rparr>) = None
   \<and> token_candidates HATHOR_TOKEN_MELT (Some ''none'') (map UTXO sample_hathor_utxos) = []
   \<and> createHathorTokenTransactionFromWallet sample_hathor_controller accept
        (sample_melt\<lparr>hathor_token_input.tokenUid := Some ''none''\<rparr>) =
       ([GetUTXOs ''0xabc'' HATHOR], Inl (HathorException ''No available UTXOs''))
   \<and> accept sample_hathor_transfer = None
   \<and> requestUTXOs sample_controller ''0xabc'' HATHOR = Inr (ArrayBody [])
   \<and> createHathorTransferTransactionFromWallet sample_controller accept sample_hathor_transfer =
       ([GetUTXOs ''0xabc'' HATHOR], Inl (GenericException ''No available UTXOs'' None))"
proof -
  let ?ti = "sample_melt\<lparr>hathor_token_input.tokenUid := Some ''none''\<rparr>"
  have a: "accept ?ti = None" "accept sample_hathor_transfer = None"
    by (simp_all add: accept_def)
  have n: "token_candidates HATHOR_TOKEN_MELT (Some ''none'') (map UTXO sample_hathor_utxos) = []"
    by (simp add: token_candidates_def UTXO_def sample_hathor_utxos_def)
  have e: "requestUTXOs sample_controller ''0xabc'' HATHOR = Inr (ArrayBody [])"
    by (simp add: sample_controller_def)
  have b: "requestUTXOs sample_hathor_controller ''0xabc'' HATHOR = Inr (ArrayBody sample_hathor_utxos)"
    by (simp add: sample_hathor_controller_def)
  have w: "wallet.address (hathor_token_input.wallet ?ti) = ''0xabc''"
    "hathor_token_input.type' ?ti = HATHOR_TOKEN_MELT"
    "hathor_token_input.tokenUid ?ti = Some ''none''"
    "wallet.address (hathor_transfer_input.wallet sample_hathor_transfer) = ''0xabc''"
    "wallet.address (hathor_token_input.wallet sample_melt) = ''0xabc''"
    "hathor_token_input.type' sample_melt = HATHOR_TOKEN_MELT"
    by (simp_all add: sample_melt_def sample_wallet_def sample_hathor_transfer_def)
  have t1: "createHathorTokenTransactionFromWallet sample_hathor_controller accept ?ti =
       ([GetUTXOs ''0xabc'' HATHOR], Inl (HathorException ''No available UTXOs''))"
    using hathor_no_available_utxos
      [where v=accept and ti="?ti" and c=sample_hathor_controller and us=sample_hathor_utxos,
        THEN conjunct1]
      a n b by (simp add: w)
  have t2: "createHathorTransferTransactionFromWallet sample_controller accept
              sample_hathor_transfer =
       ([GetUTXOs ''0xabc'' HATHOR], Inl (GenericException ''No available UTXOs'' None))"
    using hathor_no_available_utxos
      [where v'=accept and hi=sample_hathor_transfer and c=sample_controller, THEN conjunct2]
      a e by (simp add: w)
  from a n e t1 t2 show ?thesis by simp
qed

subsection \<open>Unspent-output discovery on a body that is not an array\<close>




end
